theory Spec2Isabelle
  imports Main
begin

section \<open>MovieHouse: image URLs, category endpoints, paging, search and visibility watches\<close>

text \<open>
  The repository holds several versions of one React component. Two of them are modelled:
  \<^item> \<^verbatim>\<open>src/App.js\<close>: its functions keep their names;
  \<^item> the first component of \<^verbatim>\<open>unnamed/part_000\<close> (lines 1 to 1683, the one with
    \<^verbatim>\<open>createDebounce\<close> and \<^verbatim>\<open>isValidMediaItem\<close>): its functions carry the suffix
    \<open>_v1\<close>.
  The second and third component of \<^verbatim>\<open>unnamed/part_000\<close> are not modelled. They
  share with \<^verbatim>\<open>src/App.js\<close> the continuation of the page fetches (up to the text of
  the error message), the handler of the search box (up to a timer for an advertisement)
  and the effect that loads the data, with its clean-up.

  A handler, a timer callback or the continuation of a fetch runs to its end before the
  next one starts, and the component has rendered, and run its effects, before the next
  event arrives.
\<close>

subsection \<open>JavaScript values and strings\<close>

text \<open>
  A string is a list of characters; a character stands for a UTF-16 code unit below 256.
  \<^verbatim>\<open>String.prototype.trim\<close> removes white space and line terminators at both ends; of
  these, the code units below 256 are 9 to 13, 32 and 160.
\<close>

datatype jsval = Undefined | Null | JBool bool | JNum int | JStr string | JObj

fun truthy :: "jsval \<Rightarrow> bool" where
  "truthy Undefined = False"
| "truthy Null = False"
| "truthy (JBool b) = b"
| "truthy (JNum n) = (n \<noteq> 0)"
| "truthy (JStr s) = (s \<noteq> [])"
| "truthy JObj = True"

definition isWhiteSpace :: "char \<Rightarrow> bool" where
  "isWhiteSpace c = ((of_char c :: nat) \<in> set [9, 10, 11, 12, 13, 32, 160])"

definition trim :: "string \<Rightarrow> string" where
  "trim s = rev (dropWhile isWhiteSpace (rev (dropWhile isWhiteSpace s)))"

definition startsWith :: "string \<Rightarrow> string \<Rightarrow> bool" where
  "startsWith s p = (take (length p) s = p)"

text \<open>
  \<^verbatim>\<open>obj[key]\<close> on an object literal finds the literal's own properties and, for a key
  that is not its own, the properties every object inherits from \<^verbatim>\<open>Object.prototype\<close>.
  The inherited values are functions (an object for \<^verbatim>\<open>__proto__\<close>): they are truthy,
  they are not numbers, and their text in a template string is the engine's.
\<close>

definition objectPrototypeNames :: "string list" where
  "objectPrototypeNames =
     [''constructor'', ''hasOwnProperty'', ''isPrototypeOf'', ''propertyIsEnumerable'',
      ''toLocaleString'', ''toString'', ''valueOf'', ''__proto__'',
      ''__defineGetter__'', ''__defineSetter__'', ''__lookupGetter__'', ''__lookupSetter__'']"

datatype 'a property = Own 'a | Inherited | Absent

definition getProperty :: "(string \<Rightarrow> 'a option) \<Rightarrow> string \<Rightarrow> 'a property" where
  "getProperty obj k =
     (case obj k of
        Some v \<Rightarrow> Own v
      | None \<Rightarrow> if k \<in> set objectPrototypeNames then Inherited else Absent)"

text \<open>Decimal text of a number, as a template string prints a non-negative integer.\<close>

definition digit :: "nat \<Rightarrow> char" where
  "digit d = ''0123456789'' ! d"

fun string_of_nat :: "nat \<Rightarrow> string" where
  "string_of_nat n = (if n < 10 then [digit n] else string_of_nat (n div 10) @ [digit (n mod 10)])"

declare string_of_nat.simps [simp del]

subsection \<open>Image URLs (\<^verbatim>\<open>getImageUrl\<close>, the same text in both components)\<close>

definition TMDB_IMAGE_BASE :: string where
  "TMDB_IMAGE_BASE = ''https://image.tmdb.org/t/p/''"

definition imageSizes :: "string \<Rightarrow> string option" where
  "imageSizes k =
     (if k = ''thumbnail'' then Some ''w92''
      else if k = ''small'' then Some ''w154''
      else if k = ''card'' then Some ''w342''
      else if k = ''medium'' then Some ''w500''
      else if k = ''large'' then Some ''w780''
      else if k = ''xlarge'' then Some ''w1280''
      else if k = ''original'' then Some ''original''
      else None)"

text \<open>
  The result: \<^verbatim>\<open>null\<close>, a URL, or a URL whose width token is the engine's text of a
  property inherited from \<^verbatim>\<open>Object.prototype\<close> (the clean path is kept).
\<close>

datatype image_url = NoImage | ImageUrl string | EngineTextUrl string

text \<open>
  \<^verbatim>\<open>
  const getImageUrl = (path, size = "card") => {
    if (!path || typeof path !== 'string' || path.trim() === '' || path === 'null') {
      return null;
    }
    const sizeString = imageSizes[size] || imageSizes.card;
    const cleanPath = path.startsWith('/') ? path : `/${path}`;
    return `${TMDB_IMAGE_BASE}${sizeString}${cleanPath}`;
  };
  \<close>
  The size is \<open>None\<close> when the caller passes none (the default \<^verbatim>\<open>"card"\<close> applies).
\<close>

definition cleanPath :: "string \<Rightarrow> string" where
  "cleanPath p = (if startsWith p ''/'' then p else ''/'' @ p)"

definition sizeString :: "string \<Rightarrow> string option" where
  "sizeString sz =
     (case getProperty imageSizes sz of
        Own s \<Rightarrow> Some (if s \<noteq> [] then s else ''w342'')
      | Absent \<Rightarrow> Some ''w342''
      | Inherited \<Rightarrow> None)"

fun getImageUrl :: "jsval \<Rightarrow> string option \<Rightarrow> image_url" where
  "getImageUrl (JStr p) sz =
     (if \<not> truthy (JStr p) \<or> trim p = [] \<or> p = ''null'' then NoImage
      else (case sizeString (case sz of None \<Rightarrow> ''card'' | Some s \<Rightarrow> s) of
              Some w \<Rightarrow> ImageUrl (TMDB_IMAGE_BASE @ w @ cleanPath p)
            | None \<Rightarrow> EngineTextUrl (cleanPath p)))"
| "getImageUrl _ sz = NoImage"

subsection \<open>Category endpoints (the URL built by \<^verbatim>\<open>fetchByCategory\<close> in \<^verbatim>\<open>src/App.js\<close>)\<close>

text \<open>
  \<^verbatim>\<open>API_KEY\<close> is \<^verbatim>\<open>process.env.REACT_APP_TMDB_API_KEY\<close>: a string, or \<^verbatim>\<open>undefined\<close>
  (\<open>None\<close>), which a template string prints as \<^verbatim>\<open>undefined\<close>.
\<close>

definition keyText :: "string option \<Rightarrow> string" where
  "keyText k = (case k of None \<Rightarrow> ''undefined'' | Some s \<Rightarrow> s)"

datatype tvcat = ListName string | GenreId nat

definition tvCatMap :: "string \<Rightarrow> tvcat option" where
  "tvCatMap c =
     (if c = ''popular_tv'' then Some (ListName ''popular'')
      else if c = ''top_rated_tv'' then Some (ListName ''top_rated'')
      else if c = ''on_the_air'' then Some (ListName ''on_the_air'')
      else if c = ''airing_today'' then Some (ListName ''airing_today'')
      else if c = ''tv_action'' then Some (GenreId 10759)
      else if c = ''tv_comedy'' then Some (GenreId 35)
      else if c = ''tv_drama'' then Some (GenreId 18)
      else if c = ''tv_scifi'' then Some (GenreId 10765)
      else if c = ''tv_animation'' then Some (GenreId 16)
      else if c = ''tagalog_tv'' then Some (ListName ''tagalog_tv'')
      else if c = ''tv_mystery'' then Some (GenreId 9648)
      else if c = ''tv_reality'' then Some (GenreId 10764)
      else if c = ''tv_documentary'' then Some (GenreId 99)
      else None)"

definition movieGenres :: "string list" where
  "movieGenres =
     [''action'', ''comedy'', ''drama'', ''horror'', ''romance'', ''thriller'', ''scifi'',
      ''animation'']"

definition genreMap :: "string \<Rightarrow> nat option" where
  "genreMap c =
     (if c = ''action'' then Some 28
      else if c = ''comedy'' then Some 35
      else if c = ''drama'' then Some 18
      else if c = ''horror'' then Some 27
      else if c = ''romance'' then Some 10749
      else if c = ''thriller'' then Some 53
      else if c = ''scifi'' then Some 878
      else if c = ''animation'' then Some 16
      else None)"

text \<open>
  The endpoint is \<open>None\<close> where its text is the engine's: \<^verbatim>\<open>tvCatMap[cat]\<close> for a
  category that names a property inherited from \<^verbatim>\<open>Object.prototype\<close>. A category that
  is no key of \<^verbatim>\<open>tvCatMap\<close> at all gives \<^verbatim>\<open>undefined\<close>, printed as such.
\<close>

definition API_ROOT :: string where
  "API_ROOT = ''https://api.themoviedb.org/3/''"

definition categoryEndpoint :: "string option \<Rightarrow> bool \<Rightarrow> string \<Rightarrow> nat \<Rightarrow> string option" where
  "categoryEndpoint key showTV cat pageNum =
     (if showTV then
        (case getProperty tvCatMap cat of
           Own (GenreId g) \<Rightarrow>
             Some (API_ROOT @ ''discover/tv?api_key='' @ keyText key @ ''&with_genres=''
                   @ string_of_nat g @ ''&sort_by=popularity.desc&page='' @ string_of_nat pageNum)
         | Own (ListName l) \<Rightarrow>
             if l = ''tagalog_tv'' then
               Some (API_ROOT @ ''discover/tv?api_key='' @ keyText key
                     @ ''&with_original_language=tl&sort_by=popularity.desc&page=''
                     @ string_of_nat pageNum)
             else
               Some (API_ROOT @ ''tv/'' @ l @ ''?api_key='' @ keyText key @ ''&page=''
                     @ string_of_nat pageNum)
         | Absent \<Rightarrow>
             Some (API_ROOT @ ''tv/'' @ ''undefined'' @ ''?api_key='' @ keyText key @ ''&page=''
                   @ string_of_nat pageNum)
         | Inherited \<Rightarrow> None)
      else if cat = ''filipino'' then
        Some (API_ROOT @ ''discover/movie?api_key='' @ keyText key
              @ ''&with_original_language=tl&region=PH&sort_by=popularity.desc&page=''
              @ string_of_nat pageNum)
      else if cat \<in> set movieGenres then
        (case genreMap cat of
           Some g \<Rightarrow>
             Some (API_ROOT @ ''discover/movie?api_key='' @ keyText key @ ''&with_genres=''
                   @ string_of_nat g @ ''&sort_by=popularity.desc&page='' @ string_of_nat pageNum)
         | None \<Rightarrow>
             Some (API_ROOT @ ''discover/movie?api_key='' @ keyText key @ ''&with_genres=''
                   @ ''undefined'' @ ''&sort_by=popularity.desc&page='' @ string_of_nat pageNum))
      else
        Some (API_ROOT @ ''movie/'' @ cat @ ''?api_key='' @ keyText key @ ''&page=''
              @ string_of_nat pageNum))"

definition trendingEndpoint :: "string option \<Rightarrow> bool \<Rightarrow> nat \<Rightarrow> string" where
  "trendingEndpoint key showTV pageNum =
     API_ROOT @ ''trending/'' @ (if showTV then ''tv'' else ''movie'') @ ''/week?api_key=''
     @ keyText key @ ''&page='' @ string_of_nat pageNum"

subsection \<open>Media items, responses, requests and timers\<close>

text \<open>
  A media item is an object of the \<^verbatim>\<open>results\<close> array (the elements of the array are
  taken to be objects); only the fields the code reads are kept. The identifier \<open>0\<close> and
  the empty title or name stand for a field that is missing or falsy.
\<close>

record media_item =
  item_id :: nat
  title :: string
  name :: string

text \<open>
  The body of a response, parsed: \<^verbatim>\<open>results\<close> is an array, or \<open>None\<close> when the
  field is missing, \<^verbatim>\<open>null\<close> or, for the check \<^verbatim>\<open>Array.isArray\<close> of the part_000
  component, anything that is no array; \<^verbatim>\<open>total_pages\<close> and \<^verbatim>\<open>total_results\<close> are
  numbers, or \<open>None\<close> when missing.
\<close>

record api_data =
  results :: "media_item list option"
  total_pages :: "nat option"
  total_results :: "nat option"

text \<open>
  What \<^verbatim>\<open>await fetch(url)\<close> followed by \<^verbatim>\<open>await res.json()\<close> gives: either of the
  two promises rejects with an error of message \<open>m\<close> (\<open>Rejected m\<close>; a body that is
  \<^verbatim>\<open>null\<close>, whose fields cannot be read, ends in the same \<^verbatim>\<open>catch\<close>), or there is a
  status and a parsed body. \<^verbatim>\<open>res.ok\<close> is a status from 200 to 299.
\<close>

datatype response = Rejected string | Reply nat api_data

definition ok :: "nat \<Rightarrow> bool" where
  "ok status = (200 \<le> status \<and> status \<le> 299)"

text \<open>
  A request that was sent and waits for its response, with what its continuation needs:
  the page fetches of \<^verbatim>\<open>fetchTrending\<close> and \<^verbatim>\<open>fetchByCategory\<close> (URL, \<^verbatim>\<open>pageNum\<close>,
  \<^verbatim>\<open>shouldReset\<close>; the URL is \<open>None\<close> where its text is the engine's), the search of
  \<^verbatim>\<open>fetchSearchSuggestions\<close> and the search of \<^verbatim>\<open>performSearch\<close> (the query).
\<close>

datatype request =
    PageRequest "string option" nat bool
  | SuggestionRequest string
  | SearchRequest string

text \<open>The callback of a pending \<^verbatim>\<open>setTimeout\<close>, with the value it closes over.\<close>

datatype task = SuggestTask string | SearchTask string

text \<open>
  The state of the component and of the browser around it. The fields \<open>totalResults\<close>,
  \<open>selectedLanguage\<close> and \<open>debounceTimeoutId\<close> (the variable \<^verbatim>\<open>timeoutId\<close> of
  \<^verbatim>\<open>createDebounce\<close>) exist in the part_000 component only.
  A pending timer is its handle, the time it is due and its callback; \<open>issued\<close> lists
  every request sent so far, \<open>pending\<close> those whose response has not arrived.
  \<open>scrollWatch\<close> is the cell of the grid that the \<^verbatim>\<open>IntersectionObserver\<close> of
  \<^verbatim>\<open>observerRef\<close> observes, named by its React key; it is \<open>None\<close> when the observer
  does not exist, is disconnected, observes nothing, or observes a node that has been
  removed from the document (such a node has no intersecting entry).
\<close>

record app =
  movies :: "media_item list"
  featured :: "media_item option"
  category :: string
  search :: string
  loading :: bool
  error :: "string option"
  searchResults :: "media_item list"
  isSearching :: bool
  suggestions :: "media_item list"
  showTVSeriesPage :: bool
  showTVDetails :: bool
  page :: nat
  hasMore :: bool
  totalResults :: nat
  selectedLanguage :: string
  typingTimeoutRef :: "nat option"
  debounceTimeoutId :: "nat option"
  apiKey :: "string option"
  now :: nat
  nextTimer :: nat
  timers :: "(nat \<times> nat \<times> task) list"
  pending :: "request list"
  issued :: "request list"
  scrollWatch :: "string option"

definition setTimeout :: "task \<Rightarrow> nat \<Rightarrow> app \<Rightarrow> nat \<times> app" where
  "setTimeout k delay st =
     (nextTimer st,
      st\<lparr>timers := timers st @ [(nextTimer st, now st + delay, k)],
         nextTimer := Suc (nextTimer st)\<rparr>)"

definition clearTimeout :: "nat \<Rightarrow> app \<Rightarrow> app" where
  "clearTimeout h st = st\<lparr>timers := filter (\<lambda>t. fst t \<noteq> h) (timers st)\<rparr>"

definition send :: "request \<Rightarrow> app \<Rightarrow> app" where
  "send rq st = st\<lparr>pending := pending st @ [rq], issued := issued st @ [rq]\<rparr>"

definition first :: "media_item list \<Rightarrow> media_item option" where
  "first xs = (case xs of [] \<Rightarrow> None | x # _ \<Rightarrow> Some x)"

definition orEmpty :: "media_item list option \<Rightarrow> media_item list" where
  "orEmpty r = (case r of None \<Rightarrow> [] | Some xs \<Rightarrow> xs)"

text \<open>
  The browser's part of timers. A timer that is due fires: it leaves the pending timers
  and its callback runs (\<open>exec\<close> is the component's reading of a callback). Time passes:
  the timers due by then fire in the order of their due times, the earlier call of
  \<^verbatim>\<open>setTimeout\<close> first among equals. No callback of these components arms a timer.
\<close>

definition fireTimer :: "(task \<Rightarrow> app \<Rightarrow> app) \<Rightarrow> (nat \<times> nat \<times> task) \<Rightarrow> app \<Rightarrow> app" where
  "fireTimer exec t st =
     (if t \<in> set (timers st)
      then exec (snd (snd t))
             (st\<lparr>timers := filter (\<lambda>u. u \<noteq> t) (timers st), now := fst (snd t)\<rparr>)
      else st)"

definition dueBy :: "nat \<Rightarrow> app \<Rightarrow> (nat \<times> nat \<times> task) list" where
  "dueBy t st = sort_key (\<lambda>u. fst (snd u)) (filter (\<lambda>u. fst (snd u) \<le> t) (timers st))"

definition elapse :: "(task \<Rightarrow> app \<Rightarrow> app) \<Rightarrow> nat \<Rightarrow> app \<Rightarrow> app" where
  "elapse exec d st = (fold (fireTimer exec) (dueBy (now st + d) st) st)\<lparr>now := now st + d\<rparr>"

text \<open>
  A response arrives for the pending request at index \<open>i\<close>: the request leaves the
  pending ones and the continuation of its function runs (\<open>cont\<close>).
\<close>

definition respond ::
  "(request \<Rightarrow> response \<Rightarrow> app \<Rightarrow> app) \<Rightarrow> nat \<Rightarrow> response \<Rightarrow> app \<Rightarrow> app" where
  "respond cont i r st =
     (if i < length (pending st)
      then cont (pending st ! i) r
             (st\<lparr>pending := take i (pending st) @ drop (Suc i) (pending st)\<rparr>)
      else st)"

text \<open>
  What the user, the network and the clock do to a mounted component. \<open>Intersect b\<close> is
  an entry for the node that the scroll observer watches, with \<^verbatim>\<open>isIntersecting\<close> \<open>b\<close>.
\<close>

datatype event =
    Mount
  | Type string
  | Wait nat
  | Respond nat response
  | LoadMore
  | Intersect bool

text \<open>The state of the first render, before any effect has run.\<close>

definition initial :: "string option \<Rightarrow> app" where
  "initial key =
     \<lparr>movies = [], featured = None, category = ''trending'', search = [], loading = False,
      error = None, searchResults = [], isSearching = False, suggestions = [],
      showTVSeriesPage = False, showTVDetails = False, page = 1, hasMore = True,
      totalResults = 0, selectedLanguage = ''en'', typingTimeoutRef = None,
      debounceTimeoutId = None, apiKey = key, now = 0, nextTimer = 1, timers = [],
      pending = [], issued = [], scrollWatch = None\<rparr>"

subsection \<open>The component of \<^verbatim>\<open>src/App.js\<close>\<close>

text \<open>
  An \<^verbatim>\<open>async\<close> function is two functions: the part that runs until \<^verbatim>\<open>await fetch\<close>
  (it sends the request), and the continuation that runs when the response arrives.
  \<^verbatim>\<open>fetchTrending\<close> and \<^verbatim>\<open>fetchByCategory\<close> have the same text after the
  \<^verbatim>\<open>await\<close>; \<open>pageLoaded\<close> is that text:
  \<^verbatim>\<open>
      if (!res.ok) throw new Error("Failed to fetch");
      const data = await res.json();
      if (pageNum === 1) {
        setMovies(data.results || []);
        setFeatured(data.results?.[0] || null);
      } else {
        setMovies(prev => [...prev, ...(data.results || [])]);
      }
      setHasMore(pageNum < data.total_pages);
      setPage(pageNum);
    } catch (err) {
      setError('Failed to load content');
    } finally {
      setLoading(false);
    }
  \<close>
\<close>

definition fetchTrending :: "nat \<Rightarrow> app \<Rightarrow> app" where
  "fetchTrending pageNum st =
     send (PageRequest (Some (trendingEndpoint (apiKey st) (showTVSeriesPage st) pageNum))
             pageNum True)
       (st\<lparr>loading := True, error := None\<rparr>)"

definition fetchByCategory :: "string \<Rightarrow> nat \<Rightarrow> app \<Rightarrow> app" where
  "fetchByCategory cat pageNum st =
     send (PageRequest (categoryEndpoint (apiKey st) (showTVSeriesPage st) cat pageNum)
             pageNum True)
       (st\<lparr>loading := True, error := None\<rparr>)"

definition pageLoaded :: "nat \<Rightarrow> response \<Rightarrow> app \<Rightarrow> app" where
  "pageLoaded pageNum r st =
     (case r of
        Rejected m \<Rightarrow> st\<lparr>error := Some ''Failed to load content''\<rparr>
      | Reply status d \<Rightarrow>
          if \<not> ok status then st\<lparr>error := Some ''Failed to load content''\<rparr>
          else
            (if pageNum = 1
             then st\<lparr>movies := orEmpty (results d), featured := first (orEmpty (results d))\<rparr>
             else st\<lparr>movies := movies st @ orEmpty (results d)\<rparr>)
            \<lparr>hasMore := (case total_pages d of None \<Rightarrow> False | Some tp \<Rightarrow> pageNum < tp),
             page := pageNum\<rparr>)
     \<lparr>loading := False\<rparr>"

text \<open>\<^verbatim>\<open>category === "trending" ? fetchTrending() : fetchByCategory(category)\<close>\<close>

definition fetchCurrentCategory :: "app \<Rightarrow> app" where
  "fetchCurrentCategory st =
     (if category st = ''trending'' then fetchTrending 1 st
      else fetchByCategory (category st) 1 st)"

definition handleLoadMore :: "app \<Rightarrow> app" where
  "handleLoadMore st =
     (if category st = ''trending'' then fetchTrending (page st + 1) st
      else fetchByCategory (category st) (page st + 1) st)"

definition fetchSearchSuggestions :: "string \<Rightarrow> app \<Rightarrow> app" where
  "fetchSearchSuggestions query st =
     (if length (trim query) < 2 then st\<lparr>suggestions := []\<rparr>
      else send (SuggestionRequest query) st)"

text \<open>
  \<^verbatim>\<open>
      const data = await res.json();
      setSuggestions(data.results?.slice(0, 5) || []);
    } catch (err) {
      setSuggestions([]);
    }
  \<close>
\<close>

definition suggestionsLoaded :: "response \<Rightarrow> app \<Rightarrow> app" where
  "suggestionsLoaded r st =
     (case r of
        Rejected m \<Rightarrow> st\<lparr>suggestions := []\<rparr>
      | Reply status d \<Rightarrow> st\<lparr>suggestions := take 5 (orEmpty (results d))\<rparr>)"

definition performSearch :: "string \<Rightarrow> app \<Rightarrow> app" where
  "performSearch query st =
     (if trim query = [] then
        fetchCurrentCategory
          (st\<lparr>searchResults := [], suggestions := [], isSearching := False, search := [],
              page := 1, hasMore := True\<rparr>)
      else
        send (SearchRequest query) (st\<lparr>isSearching := True, loading := True, error := None\<rparr>))"

definition searchLoaded :: "response \<Rightarrow> app \<Rightarrow> app" where
  "searchLoaded r st =
     (case r of
        Rejected m \<Rightarrow> st\<lparr>error := Some ''Search failed'', searchResults := [], suggestions := []\<rparr>
      | Reply status d \<Rightarrow>
          if \<not> ok status
          then st\<lparr>error := Some ''Search failed'', searchResults := [], suggestions := []\<rparr>
          else st\<lparr>searchResults := orEmpty (results d), suggestions := [], featured := None,
                  movies := [], page := 1, hasMore := False\<rparr>)
     \<lparr>isSearching := False, loading := False\<rparr>"

text \<open>
  \<^verbatim>\<open>
  const handleSearchChange = (e) => {
    const value = e.target.value;
    setSearch(value);
    if (typingTimeoutRef.current) clearTimeout(typingTimeoutRef.current);
    if (!value.trim()) {
      setSearchResults([]);
      setSuggestions([]);
      setIsSearching(false);
      setPage(1);
      setHasMore(true);
      category === "trending" ? fetchTrending() : fetchByCategory(category);
      return;
    }
    if (value.trim().length >= 2) {
      setIsSearching(true);
      typingTimeoutRef.current = setTimeout(() => {
        fetchSearchSuggestions(value);
      }, 300);
      typingTimeoutRef.current = setTimeout(() => {
        performSearch(value);
      }, 500);
    }
  };
  \<close>
\<close>

definition clearTyping :: "app \<Rightarrow> app" where
  "clearTyping st = (case typingTimeoutRef st of None \<Rightarrow> st | Some h \<Rightarrow> clearTimeout h st)"

definition handleSearchChange :: "string \<Rightarrow> app \<Rightarrow> app" where
  "handleSearchChange v st =
     (let st1 = clearTyping (st\<lparr>search := v\<rparr>) in
      if trim v = [] then
        fetchCurrentCategory
          (st1\<lparr>searchResults := [], suggestions := [], isSearching := False, page := 1,
               hasMore := True\<rparr>)
      else if length (trim v) \<ge> 2 then
        (let (h1, st2) = setTimeout (SuggestTask v) 300 (st1\<lparr>isSearching := True\<rparr>);
             st3 = st2\<lparr>typingTimeoutRef := Some h1\<rparr>;
             (h2, st4) = setTimeout (SearchTask v) 500 st3
         in st4\<lparr>typingTimeoutRef := Some h2\<rparr>)
      else st1)"

definition continue :: "request \<Rightarrow> response \<Rightarrow> app \<Rightarrow> app" where
  "continue rq r st =
     (case rq of
        PageRequest u n b \<Rightarrow> pageLoaded n r st
      | SuggestionRequest q \<Rightarrow> suggestionsLoaded r st
      | SearchRequest q \<Rightarrow> searchLoaded r st)"

definition runTask :: "task \<Rightarrow> app \<Rightarrow> app" where
  "runTask k st =
     (case k of SuggestTask q \<Rightarrow> fetchSearchSuggestions q st | SearchTask q \<Rightarrow> performSearch q st)"

text \<open>
  The effects. After a handler, a timer callback or a continuation has updated the state,
  the component renders again and the effects whose dependencies changed run: first their
  clean-up functions, then their bodies.
  \<^verbatim>\<open>
  useEffect(() => {
    if (loading || !hasMore || search.trim()) return;
    if (observerRef.current) observerRef.current.disconnect();
    observerRef.current = new IntersectionObserver(entries => {
      if (entries[0].isIntersecting) {
        handleLoadMore();
      }
    });
    if (lastMovieRef.current) {
      observerRef.current.observe(lastMovieRef.current);
    }
    return () => {
      if (observerRef.current) observerRef.current.disconnect();
    };
  }, [loading, hasMore, search, handleLoadMore]);
  \<close>
  \<^verbatim>\<open>handleLoadMore\<close> changes with \<^verbatim>\<open>category\<close>, \<^verbatim>\<open>page\<close> and
  \<^verbatim>\<open>showTVSeriesPage\<close>. The grid is rendered under
  \<^verbatim>\<open>!loading && !error && displayMovies.length > 0 && !showTVDetails\<close>, with one cell
  for each item of \<^verbatim>\<open>displayMovies\<close>:
  \<^verbatim>\<open>
  {displayMovies.map((item, index) => (
    <div
      ref={index === displayMovies.length - 1 ? lastMovieRef : null}
      key={`${item.id}-${item.title || item.name}`}
    >
  \<close>
  \<^verbatim>\<open>lastMovieRef.current\<close> is the last cell of the grid, and \<^verbatim>\<open>null\<close> while the grid
  is not rendered. (For an item that has neither title nor name, or no identifier, the
  text of the key is the engine's text for the missing field; the key of the model stands
  for it.)
\<close>

definition displayMovies :: "app \<Rightarrow> media_item list" where
  "displayMovies st = (if trim (search st) \<noteq> [] then searchResults st else movies st)"

definition gridShown :: "app \<Rightarrow> bool" where
  "gridShown st =
     (\<not> loading st \<and> error st = None \<and> displayMovies st \<noteq> [] \<and> \<not> showTVDetails st)"

definition observerDeps :: "app \<Rightarrow> bool \<times> bool \<times> string \<times> string \<times> nat \<times> bool" where
  "observerDeps st =
     (loading st, hasMore st, search st, category st, page st, showTVSeriesPage st)"

definition cellKey :: "media_item \<Rightarrow> string" where
  "cellKey item =
     string_of_nat (item_id item) @ ''-'' @ (if title item \<noteq> [] then title item else name item)"

definition cellKeys :: "app \<Rightarrow> string list" where
  "cellKeys st = (if gridShown st then map cellKey (displayMovies st) else [])"

definition lastMovieRef :: "app \<Rightarrow> string option" where
  "lastMovieRef st = (if cellKeys st = [] then None else Some (last (cellKeys st)))"

text \<open>
  A render updates the document before any effect runs. React keeps the node of a cell
  from one render to the next while the grid stays rendered and has a cell of the same key;
  every other node is removed. The observer is not told: it goes on observing a removed
  node, which never intersects again.
\<close>

definition commit :: "app \<Rightarrow> app" where
  "commit st =
     (case scrollWatch st of
        None \<Rightarrow> st
      | Some k \<Rightarrow> if k \<in> set (cellKeys st) then st else st\<lparr>scrollWatch := None\<rparr>)"

text \<open>
  The body of the observer's effect, and the effect: when a dependency has changed, the
  clean-up of the previous run disconnects the observer, then the body runs.
\<close>

definition observerBody :: "app \<Rightarrow> app" where
  "observerBody st =
     (if loading st \<or> \<not> hasMore st \<or> trim (search st) \<noteq> [] then st
      else st\<lparr>scrollWatch := lastMovieRef st\<rparr>)"

definition observerEffect :: "app \<Rightarrow> app \<Rightarrow> app" where
  "observerEffect prev st =
     (if observerDeps prev = observerDeps st then st
      else observerBody (st\<lparr>scrollWatch := None\<rparr>))"

text \<open>
  \<^verbatim>\<open>
  useEffect(() => {
    if (!search) {
      setPage(1);
      setHasMore(true);
      category === "trending" ? fetchTrending() : fetchByCategory(category);
    }
    return () => {
      if (typingTimeoutRef.current) clearTimeout(typingTimeoutRef.current);
    };
  }, [category, showTVSeriesPage, search, fetchTrending, fetchByCategory]);
  \<close>
  The clean-up reads \<^verbatim>\<open>typingTimeoutRef.current\<close> when it runs, that is after the
  handler that changed \<^verbatim>\<open>search\<close> has stored its new timer there.
\<close>

definition loadDataDeps :: "app \<Rightarrow> string \<times> bool \<times> string" where
  "loadDataDeps st = (category st, showTVSeriesPage st, search st)"

definition loadDataBody :: "app \<Rightarrow> app" where
  "loadDataBody st =
     (if search st = [] then fetchCurrentCategory (st\<lparr>page := 1, hasMore := True\<rparr>) else st)"

definition loadDataEffect :: "app \<Rightarrow> app \<Rightarrow> app" where
  "loadDataEffect prev st =
     (if loadDataDeps prev = loadDataDeps st then st else loadDataBody (clearTyping st))"

text \<open>
  The render that follows an update changes the document and runs both effects against
  the previous render; the updates of \<open>loadDataBody\<close> cause one more render, in which
  only the observer's effect can have changed dependencies. \<open>mount\<close> is the first
  render.
\<close>

definition rendered :: "app \<Rightarrow> app \<Rightarrow> app" where
  "rendered prev st =
     (let st0 = commit st; st1 = observerEffect prev st0; st2 = loadDataEffect prev st1
      in observerEffect st1 (commit st2))"

definition mount :: "app \<Rightarrow> app" where
  "mount st =
     (let st1 = observerBody (commit st); st2 = loadDataBody st1
      in observerEffect st1 (commit st2))"

text \<open>
  The callback of the observer runs on an entry of the node it observes: never when the
  observer is disconnected or its node removed.
\<close>

definition scrollCallback :: "bool \<Rightarrow> app \<Rightarrow> app" where
  "scrollCallback isIntersecting st =
     (if scrollWatch st \<noteq> None \<and> isIntersecting then handleLoadMore st else st)"

text \<open>
  The list of suggestions is rendered under
  \<^verbatim>\<open>suggestions.length > 0 && search.trim().length >= 2\<close>.
\<close>

definition suggestionsShown :: "app \<Rightarrow> bool" where
  "suggestionsShown st = (suggestions st \<noteq> [] \<and> 2 \<le> length (trim (search st)))"

fun handle :: "event \<Rightarrow> app \<Rightarrow> app" where
  "handle Mount st = st"
| "handle (Type v) st = handleSearchChange v st"
| "handle (Wait d) st = elapse runTask d st"
| "handle (Respond i r) st = respond continue i r st"
| "handle LoadMore st = handleLoadMore st"
| "handle (Intersect b) st = scrollCallback b st"

definition step :: "event \<Rightarrow> app \<Rightarrow> app" where
  "step e st = (if e = Mount then mount st else rendered st (handle e st))"

definition run :: "event list \<Rightarrow> app \<Rightarrow> app" where
  "run es st = fold step es st"

subsection \<open>The first component of \<^verbatim>\<open>unnamed/part_000\<close>\<close>

text \<open>\<^verbatim>\<open>item && typeof item === 'object' && item.id && (item.title || item.name)\<close>\<close>

definition isValidMediaItem :: "media_item \<Rightarrow> bool" where
  "isValidMediaItem item = (item_id item \<noteq> 0 \<and> (title item \<noteq> [] \<or> name item \<noteq> []))"

text \<open>\<^verbatim>\<open>!API_KEY || API_KEY === 'undefined'\<close>\<close>

definition keyMissing :: "string option \<Rightarrow> bool" where
  "keyMissing k = (k = None \<or> k = Some [] \<or> k = Some ''undefined'')"

text \<open>
  Every URL of this component is the URL of \<^verbatim>\<open>src/App.js\<close> followed by
  \<^verbatim>\<open>&language=${selectedLanguage}\<close>.
\<close>

definition withLanguage :: "string \<Rightarrow> string \<Rightarrow> string" where
  "withLanguage lang u = u @ ''&language='' @ lang"

text \<open>
  \<^verbatim>\<open>
  setMovies(prev => {
    const existingIds = new Set(prev.map(item => item.id));
    const newItems = validResults.filter(item => !existingIds.has(item.id));
    return [...prev, ...newItems];
  });
  \<close>
\<close>

definition mergePage :: "media_item list \<Rightarrow> media_item list \<Rightarrow> media_item list" where
  "mergePage prev validResults =
     (let existingIds = set (map item_id prev);
          newItems = filter (\<lambda>item. item_id item \<notin> existingIds) validResults
      in prev @ newItems)"

text \<open>
  The part of the \<^verbatim>\<open>try\<close> block that can throw, after the \<^verbatim>\<open>await\<close>: the message
  of the error thrown, or the valid results with the body.
  \<^verbatim>\<open>
      if (!res.ok) {
        if (res.status === 429) {
          throw new Error("API rate limit exceeded. Please try again later.");
        }
        throw new Error(`Failed to fetch data: ${res.status}`);
      }
      const data = await res.json();
      if (!data.results || !Array.isArray(data.results)) {
        throw new Error("Invalid data received from API");
      }
      const validResults = data.results.filter(isValidMediaItem);
  \<close>
\<close>

definition rateLimitMessage :: string where
  "rateLimitMessage = ''API rate limit exceeded. Please try again later.''"

definition checkPage_v1 :: "response \<Rightarrow> string + (media_item list \<times> api_data)" where
  "checkPage_v1 r =
     (case r of
        Rejected m \<Rightarrow> Inl m
      | Reply status d \<Rightarrow>
          if \<not> ok status then
            (if status = 429 then Inl rateLimitMessage
             else Inl (''Failed to fetch data: '' @ string_of_nat status))
          else (case results d of
                  None \<Rightarrow> Inl ''Invalid data received from API''
                | Some rs \<Rightarrow> Inr (filter isValidMediaItem rs, d)))"

definition fetchTrending_v1 :: "nat \<Rightarrow> bool \<Rightarrow> app \<Rightarrow> app" where
  "fetchTrending_v1 pageNum shouldReset st =
     (if keyMissing (apiKey st) then st
      else send (PageRequest
                   (Some (withLanguage (selectedLanguage st)
                            (trendingEndpoint (apiKey st) (showTVSeriesPage st) pageNum)))
                   pageNum shouldReset)
             ((if shouldReset then st\<lparr>loading := True\<rparr> else st)\<lparr>error := None\<rparr>))"

definition fetchByCategory_v1 :: "string \<Rightarrow> nat \<Rightarrow> bool \<Rightarrow> app \<Rightarrow> app" where
  "fetchByCategory_v1 cat pageNum shouldReset st =
     (if keyMissing (apiKey st) then st
      else send (PageRequest
                   (map_option (withLanguage (selectedLanguage st))
                      (categoryEndpoint (apiKey st) (showTVSeriesPage st) cat pageNum))
                   pageNum shouldReset)
             ((if shouldReset then st\<lparr>loading := True\<rparr> else st)\<lparr>error := None\<rparr>))"

text \<open>
  The continuation, the same text in \<^verbatim>\<open>fetchTrending\<close> and \<^verbatim>\<open>fetchByCategory\<close>:
  \<^verbatim>\<open>
      if (pageNum === 1 || shouldReset) {
        setMovies(validResults);
        setFeatured(validResults[0] || null);
      } else {
        setMovies(prev => { ... });
      }
      setTotalResults(data.total_results || 0);
      setHasMore(pageNum < (data.total_pages || 1));
      setPage(pageNum);
    } catch (err) {
      setError(err.message || 'Failed to load content');
      if (pageNum === 1) {
        setMovies([]);
        setFeatured(null);
      }
    } finally {
      if (shouldReset) {
        setLoading(false);
      }
    }
  \<close>
\<close>

definition orElse :: "string \<Rightarrow> string \<Rightarrow> string" where
  "orElse m d = (if m \<noteq> [] then m else d)"

definition pageLoaded_v1 :: "nat \<Rightarrow> bool \<Rightarrow> response \<Rightarrow> app \<Rightarrow> app" where
  "pageLoaded_v1 pageNum shouldReset r st =
     (let st1 =
        (case checkPage_v1 r of
           Inl m \<Rightarrow>
             (let st2 = st\<lparr>error := Some (orElse m ''Failed to load content'')\<rparr>
              in if pageNum = 1 then st2\<lparr>movies := [], featured := None\<rparr> else st2)
         | Inr (validResults, d) \<Rightarrow>
             (if pageNum = 1 \<or> shouldReset
              then st\<lparr>movies := validResults, featured := first validResults\<rparr>
              else st\<lparr>movies := mergePage (movies st) validResults\<rparr>)
             \<lparr>totalResults := (case total_results d of None \<Rightarrow> 0 | Some n \<Rightarrow> n),
              hasMore := (pageNum < (case total_pages d of None \<Rightarrow> 1 | Some tp \<Rightarrow>
                                       if tp = 0 then 1 else tp)),
              page := pageNum\<rparr>)
      in if shouldReset then st1\<lparr>loading := False\<rparr> else st1)"

definition fetchCurrentCategory_v1 :: "app \<Rightarrow> app" where
  "fetchCurrentCategory_v1 st =
     (if category st = ''trending'' then fetchTrending_v1 1 True st
      else fetchByCategory_v1 (category st) 1 True st)"

text \<open>
  \<^verbatim>\<open>
  const handleLoadMore = useCallback(() => {
    if (loading || !hasMore) return;
    if (category === "trending") {
      fetchTrending(page + 1, false);
    } else {
      fetchByCategory(category, page + 1, false);
    }
  }, [category, page, loading, hasMore, fetchTrending, fetchByCategory]);
  \<close>
\<close>

definition handleLoadMore_v1 :: "app \<Rightarrow> app" where
  "handleLoadMore_v1 st =
     (if loading st \<or> \<not> hasMore st then st
      else if category st = ''trending'' then fetchTrending_v1 (page st + 1) False st
      else fetchByCategory_v1 (category st) (page st + 1) False st)"

definition fetchSearchSuggestions_v1 :: "string \<Rightarrow> app \<Rightarrow> app" where
  "fetchSearchSuggestions_v1 query st =
     (if apiKey st = None \<or> apiKey st = Some [] \<or> length (trim query) < 2
      then st\<lparr>suggestions := []\<rparr>
      else send (SuggestionRequest query) st)"

text \<open>
  \<^verbatim>\<open>
      if (!res.ok) return;
      const data = await res.json();
      if (data.results && Array.isArray(data.results)) {
        setSuggestions(data.results.slice(0, 5).filter(isValidMediaItem));
      } else {
        setSuggestions([]);
      }
    } catch (err) {
      setSuggestions([]);
    }
  \<close>
\<close>

definition suggestionsLoaded_v1 :: "response \<Rightarrow> app \<Rightarrow> app" where
  "suggestionsLoaded_v1 r st =
     (case r of
        Rejected m \<Rightarrow> st\<lparr>suggestions := []\<rparr>
      | Reply status d \<Rightarrow>
          if \<not> ok status then st
          else (case results d of
                  Some rs \<Rightarrow> st\<lparr>suggestions := filter isValidMediaItem (take 5 rs)\<rparr>
                | None \<Rightarrow> st\<lparr>suggestions := []\<rparr>))"

text \<open>
  \<^verbatim>\<open>
  const handleClearSearch = useCallback(() => {
    setSearch("");
    setSearchResults([]);
    setSuggestions([]);
    setIsSearching(false);
    setPage(1);
    setHasMore(true);
    setMovies([]);
    setTotalResults(0);
    if (typingTimeoutRef.current) {
      clearTimeout(typingTimeoutRef.current);
      typingTimeoutRef.current = null;
    }
    if (category === "trending") {
      fetchTrending();
    } else {
      fetchByCategory(category);
    }
    ...
  \<close>
\<close>

definition clearTyping_v1 :: "app \<Rightarrow> app" where
  "clearTyping_v1 st =
     (case typingTimeoutRef st of
        None \<Rightarrow> st
      | Some h \<Rightarrow> (clearTimeout h st)\<lparr>typingTimeoutRef := None\<rparr>)"

definition handleClearSearch_v1 :: "app \<Rightarrow> app" where
  "handleClearSearch_v1 st =
     fetchCurrentCategory_v1
       (clearTyping_v1
          (st\<lparr>search := [], searchResults := [], suggestions := [], isSearching := False,
              page := 1, hasMore := True, movies := [], totalResults := 0\<rparr>))"

definition performSearch_v1 :: "string \<Rightarrow> app \<Rightarrow> app" where
  "performSearch_v1 query st =
     (if trim query = [] then handleClearSearch_v1 st
      else send (SearchRequest query) (st\<lparr>isSearching := True, loading := True, error := None\<rparr>))"

text \<open>
  \<^verbatim>\<open>
      if (!res.ok) {
        if (res.status === 429) {
          throw new Error("API rate limit exceeded. Please try again later.");
        }
        throw new Error(`Search failed: ${res.status}`);
      }
      const data = await res.json();
      if (data.results && Array.isArray(data.results)) {
        const validResults = data.results.filter(isValidMediaItem);
        setSearchResults(validResults);
        setTotalResults(data.total_results || 0);
      } else {
        setSearchResults([]);
        setTotalResults(0);
      }
      setSuggestions([]);
      setFeatured(null);
      setMovies([]);
      setPage(1);
      setHasMore(false);
    } catch (err) {
      setError(err.message || 'Search failed');
      setSearchResults([]);
      setSuggestions([]);
      setTotalResults(0);
    } finally {
      setIsSearching(false);
      setLoading(false);
    }
  \<close>
\<close>

definition searchFailed_v1 :: "string \<Rightarrow> app \<Rightarrow> app" where
  "searchFailed_v1 m st =
     st\<lparr>error := Some (orElse m ''Search failed''), searchResults := [], suggestions := [],
        totalResults := 0\<rparr>"

definition searchLoaded_v1 :: "response \<Rightarrow> app \<Rightarrow> app" where
  "searchLoaded_v1 r st =
     (case r of
        Rejected m \<Rightarrow> searchFailed_v1 m st
      | Reply status d \<Rightarrow>
          if \<not> ok status then
            searchFailed_v1
              (if status = 429 then rateLimitMessage
               else ''Search failed: '' @ string_of_nat status) st
          else
            (case results d of
               Some rs \<Rightarrow>
                 st\<lparr>searchResults := filter isValidMediaItem rs,
                    totalResults := (case total_results d of None \<Rightarrow> 0 | Some n \<Rightarrow> n)\<rparr>
             | None \<Rightarrow> st\<lparr>searchResults := [], totalResults := 0\<rparr>)
            \<lparr>suggestions := [], featured := None, movies := [], page := 1, hasMore := False\<rparr>)
     \<lparr>isSearching := False, loading := False\<rparr>"

text \<open>
  \<^verbatim>\<open>
  const createDebounce = () => {
    let timeoutId;
    return (func, delay) => {
      return (...args) => {
        if (timeoutId) {
          clearTimeout(timeoutId);
        }
        timeoutId = setTimeout(() => {
          func(...args);
        }, delay);
      };
    };
  };
  \<close>
  \<^verbatim>\<open>debounceRef.current((query) => { performSearch(query); }, 500)(value)\<close> is
  \<open>debounce (SearchTask value) 500\<close>.
\<close>

definition debounce :: "task \<Rightarrow> nat \<Rightarrow> app \<Rightarrow> app" where
  "debounce k delay st =
     (let st1 = (case debounceTimeoutId st of None \<Rightarrow> st | Some h \<Rightarrow> clearTimeout h st);
          (h, st2) = setTimeout k delay st1
      in st2\<lparr>debounceTimeoutId := Some h\<rparr>)"

text \<open>
  \<^verbatim>\<open>
  const handleSearchChange = (e) => {
    const value = e.target.value;
    setSearch(value);
    if (typingTimeoutRef.current) {
      clearTimeout(typingTimeoutRef.current);
      typingTimeoutRef.current = null;
    }
    if (!value.trim()) {
      handleClearSearch();
      return;
    }
    if (value.trim().length >= 2) {
      setIsSearching(true);
      typingTimeoutRef.current = setTimeout(() => {
        fetchSearchSuggestions(value);
      }, 300);
      debounceRef.current((query) => {
        performSearch(query);
      }, 500)(value);
    } else {
      setSuggestions([]);
      setSearchResults([]);
      setIsSearching(false);
    }
  };
  \<close>
\<close>

definition handleSearchChange_v1 :: "string \<Rightarrow> app \<Rightarrow> app" where
  "handleSearchChange_v1 v st =
     (let st1 = clearTyping_v1 (st\<lparr>search := v\<rparr>) in
      if trim v = [] then handleClearSearch_v1 st1
      else if length (trim v) \<ge> 2 then
        (let (h1, st2) = setTimeout (SuggestTask v) 300 (st1\<lparr>isSearching := True\<rparr>)
         in debounce (SearchTask v) 500 (st2\<lparr>typingTimeoutRef := Some h1\<rparr>))
      else st1\<lparr>suggestions := [], searchResults := [], isSearching := False\<rparr>)"

definition continue_v1 :: "request \<Rightarrow> response \<Rightarrow> app \<Rightarrow> app" where
  "continue_v1 rq r st =
     (case rq of
        PageRequest u n b \<Rightarrow> pageLoaded_v1 n b r st
      | SuggestionRequest q \<Rightarrow> suggestionsLoaded_v1 r st
      | SearchRequest q \<Rightarrow> searchLoaded_v1 r st)"

definition runTask_v1 :: "task \<Rightarrow> app \<Rightarrow> app" where
  "runTask_v1 k st =
     (case k of
        SuggestTask q \<Rightarrow> fetchSearchSuggestions_v1 q st
      | SearchTask q \<Rightarrow> performSearch_v1 q st)"

text \<open>
  The effects of this component that touch the modelled state.
  \<^verbatim>\<open>
  useEffect(() => {
    if (loading || !hasMore || search.trim() || showTVDetails || movies.length === 0) return;
    if (observerRef.current) {
      observerRef.current.disconnect();
    }
    observerRef.current = new IntersectionObserver(
      (entries) => {
        if (entries[0].isIntersecting) {
          handleLoadMore();
        }
      },
      { rootMargin: '100px', threshold: 0.1 }
    );
    if (lastMovieRef.current) {
      observerRef.current.observe(lastMovieRef.current);
    }
    return () => {
      if (observerRef.current) {
        observerRef.current.disconnect();
        observerRef.current = null;
      }
    };
  }, [loading, hasMore, search, handleLoadMore, showTVDetails, movies.length]);

  useEffect(() => {
    if (!search.trim()) {
      setPage(1);
      setHasMore(true);
      setSearchResults([]);
      setSuggestions([]);
      if (category === "trending") {
        fetchTrending();
      } else {
        fetchByCategory(category);
      }
    }
  }, [category, showTVSeriesPage, selectedLanguage, search, fetchTrending, fetchByCategory]);
  \<close>
  The grid is rendered under the same condition as in \<^verbatim>\<open>src/App.js\<close>, over
  \<^verbatim>\<open>displayMovies\<close> filtered by \<^verbatim>\<open>isValidMediaItem\<close>; the key of a cell has the
  index of its item:
  \<^verbatim>\<open>
  const displayMovies = search.trim() ? searchResults.filter(isValidMediaItem)
                                      : movies.filter(isValidMediaItem);
  ...
  {displayMovies.map((item, index) => (
    <div
      ref={index === displayMovies.length - 1 ? lastMovieRef : null}
      key={`${item.id}-${item.title || item.name}-${index}`}
    >
  \<close>
\<close>

definition displayMovies_v1 :: "app \<Rightarrow> media_item list" where
  "displayMovies_v1 st = filter isValidMediaItem (displayMovies st)"

definition gridShown_v1 :: "app \<Rightarrow> bool" where
  "gridShown_v1 st =
     (\<not> loading st \<and> error st = None \<and> displayMovies_v1 st \<noteq> [] \<and> \<not> showTVDetails st)"

definition cellKeys_v1 :: "app \<Rightarrow> string list" where
  "cellKeys_v1 st =
     (if gridShown_v1 st
      then map (\<lambda>(index, item). cellKey item @ ''-'' @ string_of_nat index)
             (enumerate 0 (displayMovies_v1 st))
      else [])"

definition lastMovieRef_v1 :: "app \<Rightarrow> string option" where
  "lastMovieRef_v1 st = (if cellKeys_v1 st = [] then None else Some (last (cellKeys_v1 st)))"

definition commit_v1 :: "app \<Rightarrow> app" where
  "commit_v1 st =
     (case scrollWatch st of
        None \<Rightarrow> st
      | Some k \<Rightarrow> if k \<in> set (cellKeys_v1 st) then st else st\<lparr>scrollWatch := None\<rparr>)"

definition observerDeps_v1 ::
  "app \<Rightarrow> (bool \<times> bool \<times> string \<times> bool \<times> nat) \<times> (string \<times> nat \<times> bool \<times> string)" where
  "observerDeps_v1 st =
     ((loading st, hasMore st, search st, showTVDetails st, length (movies st)),
      (category st, page st, showTVSeriesPage st, selectedLanguage st))"

definition observerBody_v1 :: "app \<Rightarrow> app" where
  "observerBody_v1 st =
     (if loading st \<or> \<not> hasMore st \<or> trim (search st) \<noteq> [] \<or> showTVDetails st
         \<or> movies st = []
      then st
      else st\<lparr>scrollWatch := lastMovieRef_v1 st\<rparr>)"

definition observerEffect_v1 :: "app \<Rightarrow> app \<Rightarrow> app" where
  "observerEffect_v1 prev st =
     (if observerDeps_v1 prev = observerDeps_v1 st then st
      else observerBody_v1 (st\<lparr>scrollWatch := None\<rparr>))"

definition loadDataDeps_v1 :: "app \<Rightarrow> string \<times> bool \<times> string \<times> string" where
  "loadDataDeps_v1 st = (category st, showTVSeriesPage st, selectedLanguage st, search st)"

definition loadDataBody_v1 :: "app \<Rightarrow> app" where
  "loadDataBody_v1 st =
     (if trim (search st) = []
      then fetchCurrentCategory_v1
             (st\<lparr>page := 1, hasMore := True, searchResults := [], suggestions := []\<rparr>)
      else st)"

definition loadDataEffect_v1 :: "app \<Rightarrow> app \<Rightarrow> app" where
  "loadDataEffect_v1 prev st =
     (if loadDataDeps_v1 prev = loadDataDeps_v1 st then st else loadDataBody_v1 st)"

definition rendered_v1 :: "app \<Rightarrow> app \<Rightarrow> app" where
  "rendered_v1 prev st =
     (let st0 = commit_v1 st; st1 = observerEffect_v1 prev st0;
          st2 = loadDataEffect_v1 prev st1
      in observerEffect_v1 st1 (commit_v1 st2))"

text \<open>
  \<^verbatim>\<open>
  useEffect(() => {
    if (!API_KEY || API_KEY === 'undefined' || API_KEY === 'your_tmdb_api_key_here') {
      ...
      setError('Configuration error: API key is missing. Please check your setup.');
    }
  }, []);
  \<close>
\<close>

definition validateKey_v1 :: "app \<Rightarrow> app" where
  "validateKey_v1 st =
     (if keyMissing (apiKey st) \<or> apiKey st = Some ''your_tmdb_api_key_here''
      then st\<lparr>error := Some ''Configuration error: API key is missing. Please check your setup.''\<rparr>
      else st)"

definition mount_v1 :: "app \<Rightarrow> app" where
  "mount_v1 st =
     (let st0 = validateKey_v1 (commit_v1 st); st1 = observerBody_v1 st0;
          st2 = loadDataBody_v1 st1
      in observerEffect_v1 st1 (commit_v1 st2))"

definition scrollCallback_v1 :: "bool \<Rightarrow> app \<Rightarrow> app" where
  "scrollCallback_v1 isIntersecting st =
     (if scrollWatch st \<noteq> None \<and> isIntersecting then handleLoadMore_v1 st else st)"

fun handle_v1 :: "event \<Rightarrow> app \<Rightarrow> app" where
  "handle_v1 Mount st = st"
| "handle_v1 (Type v) st = handleSearchChange_v1 v st"
| "handle_v1 (Wait d) st = elapse runTask_v1 d st"
| "handle_v1 (Respond i r) st = respond continue_v1 i r st"
| "handle_v1 LoadMore st = handleLoadMore_v1 st"
| "handle_v1 (Intersect b) st = scrollCallback_v1 b st"

definition step_v1 :: "event \<Rightarrow> app \<Rightarrow> app" where
  "step_v1 e st = (if e = Mount then mount_v1 st else rendered_v1 st (handle_v1 e st))"

definition run_v1 :: "event list \<Rightarrow> app \<Rightarrow> app" where
  "run_v1 es st = fold step_v1 es st"

subsection \<open>The lazy image of \<^verbatim>\<open>src/components/OptimizedImage.jsx\<close>\<close>

text \<open>
  \<^verbatim>\<open>
  const [isVisible, setIsVisible] = useState(!lazy || priority);
  useEffect(() => {
    if (!lazy || priority || isVisible) return;
    const observer = new IntersectionObserver(
      ([entry]) => {
        if (entry.isIntersecting) {
          setIsVisible(true);
          observer.disconnect();
        }
      },
      { rootMargin: '200px', threshold: 0.1 }
    );
    if (imgRef.current) {
      observer.observe(imgRef.current);
    }
    observerRef.current = observer;
    return () => {
      if (observerRef.current) {
        observerRef.current.disconnect();
      }
    };
  }, [lazy, priority, isVisible]);
  \<close>
  \<open>observing\<close> says that the observer of the last run of the effect is connected and
  observes the placeholder (which is rendered, with \<^verbatim>\<open>imgRef\<close>, while \<^verbatim>\<open>isVisible\<close> is
  false); \<open>visibleCalls\<close> counts the calls \<^verbatim>\<open>setIsVisible(true)\<close>.
\<close>

record image =
  lazy :: bool
  priority :: bool
  isVisible :: bool
  observing :: bool
  visibleCalls :: nat

definition imageInitial :: "bool \<Rightarrow> bool \<Rightarrow> image" where
  "imageInitial l p =
     \<lparr>lazy = l, priority = p, isVisible = (\<not> l \<or> p), observing = False, visibleCalls = 0\<rparr>"

definition imageBody :: "image \<Rightarrow> image" where
  "imageBody im =
     (if \<not> lazy im \<or> priority im \<or> isVisible im then im else im\<lparr>observing := True\<rparr>)"

definition imageEffect :: "image \<Rightarrow> image \<Rightarrow> image" where
  "imageEffect prev im =
     (if (lazy prev, priority prev, isVisible prev) = (lazy im, priority im, isVisible im)
      then im
      else imageBody (im\<lparr>observing := False\<rparr>))"

definition imageCallback :: "bool \<Rightarrow> image \<Rightarrow> image" where
  "imageCallback isIntersecting im =
     (if observing im \<and> isIntersecting
      then im\<lparr>isVisible := True, visibleCalls := Suc (visibleCalls im), observing := False\<rparr>
      else im)"

definition imageStep :: "bool \<Rightarrow> image \<Rightarrow> image" where
  "imageStep isIntersecting im = imageEffect im (imageCallback isIntersecting im)"

subsection \<open>Inputs of the scenarios\<close>

definition itemA :: media_item where
  "itemA = \<lparr>item_id = 1, title = ''A'', name = []\<rparr>"

definition itemB :: media_item where
  "itemB = \<lparr>item_id = 2, title = ''B'', name = []\<rparr>"

definition itemC :: media_item where
  "itemC = \<lparr>item_id = 3, title = ''C'', name = []\<rparr>"

definition pageOne :: api_data where
  "pageOne = \<lparr>results = Some [itemA, itemB], total_pages = Some 5, total_results = Some 100\<rparr>"

definition pageTwo :: api_data where
  "pageTwo = \<lparr>results = Some [itemB, itemC], total_pages = Some 5, total_results = Some 100\<rparr>"

definition itemC2 :: media_item where
  "itemC2 = \<lparr>item_id = 3, title = ''C again'', name = []\<rparr>"

definition pageDup :: api_data where
  "pageDup = \<lparr>results = Some [itemC, itemC2], total_pages = Some 5, total_results = Some 100\<rparr>"

text \<open>
  No identifier occurs twice among the valid items of the page a response carries (a
  response that carries no page has none).
\<close>

definition pageDistinct :: "response \<Rightarrow> bool" where
  "pageDistinct r =
     (case r of
        Rejected m \<Rightarrow> True
      | Reply status d \<Rightarrow>
          (case results d of
             None \<Rightarrow> True
           | Some rs \<Rightarrow> distinct (map item_id (filter isValidMediaItem rs))))"

text \<open>
  The continuation of the part_000 component run on a sequence of responses, each with the
  \<^verbatim>\<open>pageNum\<close> and \<^verbatim>\<open>shouldReset\<close> of its request.
\<close>

definition loadPages_v1 :: "(nat \<times> bool \<times> response) list \<Rightarrow> app \<Rightarrow> app" where
  "loadPages_v1 ps st = fold (\<lambda>(n, b, r). pageLoaded_v1 n b r) ps st"

text \<open>A page fetch of \<^verbatim>\<open>src/App.js\<close> fails: a promise rejects, or the status is not ok.\<close>

definition failed :: "response \<Rightarrow> bool" where
  "failed r = (case r of Rejected m \<Rightarrow> True | Reply status d \<Rightarrow> \<not> ok status)"

text \<open>The URL of page \<open>n\<close> of the current category, as \<^verbatim>\<open>src/App.js\<close> builds it.\<close>

definition endpointFor :: "app \<Rightarrow> nat \<Rightarrow> string option" where
  "endpointFor st n =
     (if category st = ''trending''
      then Some (trendingEndpoint (apiKey st) (showTVSeriesPage st) n)
      else categoryEndpoint (apiKey st) (showTVSeriesPage st) (category st) n)"

text \<open>The pending timers without the one whose handle \<^verbatim>\<open>typingTimeoutRef\<close> holds.\<close>

definition untyped :: "app \<Rightarrow> (nat \<times> nat \<times> task) list" where
  "untyped st =
     (case typingTimeoutRef st of
        None \<Rightarrow> timers st
      | Some h \<Rightarrow> filter (\<lambda>t. fst t \<noteq> h) (timers st))"

text \<open>The cell that the scroll observer watches, when there is one, is in the grid.\<close>

definition attached :: "app \<Rightarrow> bool" where
  "attached st = (case scrollWatch st of None \<Rightarrow> True | Some k \<Rightarrow> k \<in> set (cellKeys st))"

definition attached_v1 :: "app \<Rightarrow> bool" where
  "attached_v1 st =
     (case scrollWatch st of None \<Rightarrow> True | Some k \<Rightarrow> k \<in> set (cellKeys_v1 st))"

section \<open>Properties\<close>

subsection \<open>Strings and requests\<close>

lemma all_dropWhile: "(\<forall>x\<in>set (dropWhile P p). P x) \<longleftrightarrow> (\<forall>x\<in>set p. P x)"
  by (metis dropWhile_eq_Nil_conv hd_dropWhile list.set_sel(1) set_dropWhileD)

lemma trim_empty_iff: "trim p = [] \<longleftrightarrow> (\<forall>c\<in>set p. isWhiteSpace c)"
  unfolding trim_def by (simp add: dropWhile_eq_Nil_conv all_dropWhile)

lemma startsWith_slash: "startsWith p ''/'' \<longleftrightarrow> (\<exists>q. p = CHR ''/'' # q)"
  by (cases p) (auto simp: startsWith_def)

lemma respond_sent:
  "i = length (pending st) \<Longrightarrow>
   respond cont i r (send rq st) = cont rq r (st\<lparr>issued := issued st @ [rq]\<rparr>)"
  by (simp add: respond_def send_def)

subsection \<open>Image URLs\<close>

lemma getImageUrl_nonstring: "(\<forall>p. v \<noteq> JStr p) \<Longrightarrow> getImageUrl v sz = NoImage"
  by (cases v) auto

lemma imageSizes_nonempty: "imageSizes k = Some w \<Longrightarrow> w \<noteq> []"
  by (auto simp: imageSizes_def split: if_splits)

lemma sizeString_own:
  "k \<notin> set objectPrototypeNames \<Longrightarrow>
   sizeString k = Some (case imageSizes k of Some w \<Rightarrow> w | None \<Rightarrow> ''w342'')"
  by (auto simp: sizeString_def getProperty_def split: option.splits dest: imageSizes_nonempty)

text \<open>
  Claim C10, as amended. \<^verbatim>\<open>getImageUrl\<close> returns a value for every input. It returns
  \<^verbatim>\<open>null\<close> for every path that is not a string, and for a string that is empty, consists
  of white space only, or is \<^verbatim>\<open>'null'\<close>. For every other string, and a size name that is
  not a property inherited from \<^verbatim>\<open>Object.prototype\<close>, it returns the base URL, the width
  token of the size (\<^verbatim>\<open>w342\<close> when \<^verbatim>\<open>imageSizes\<close> has no such key) and the path, with
  one \<^verbatim>\<open>/\<close> put in front of the path when the path does not start with \<^verbatim>\<open>/\<close>; a path
  that starts with several \<^verbatim>\<open>/\<close> keeps them all.
\<close>

theorem getImageUrl_result:
  "((\<forall>p. v \<noteq> JStr p) \<longrightarrow> getImageUrl v sz = NoImage) \<and>
   ((\<forall>c\<in>set p. isWhiteSpace c) \<or> p = ''null'' \<longrightarrow> getImageUrl (JStr p) sz = NoImage) \<and>
   (\<not> (\<forall>c\<in>set p. isWhiteSpace c) \<and> p \<noteq> ''null'' \<and>
      (case sz of None \<Rightarrow> ''card'' | Some s \<Rightarrow> s) \<notin> set objectPrototypeNames \<longrightarrow>
    getImageUrl (JStr p) sz =
      ImageUrl
        (TMDB_IMAGE_BASE
         @ (case imageSizes (case sz of None \<Rightarrow> ''card'' | Some s \<Rightarrow> s) of
              Some w \<Rightarrow> w | None \<Rightarrow> ''w342'')
         @ (if hd p = CHR ''/'' then p else CHR ''/'' # p)))"
proof (intro conjI impI)
  assume "\<forall>p. v \<noteq> JStr p"
  then show "getImageUrl v sz = NoImage" by (rule getImageUrl_nonstring)
next
  assume "(\<forall>c\<in>set p. isWhiteSpace c) \<or> p = ''null''"
  then show "getImageUrl (JStr p) sz = NoImage" by (auto simp: trim_empty_iff)
next
  assume a: "\<not> (\<forall>c\<in>set p. isWhiteSpace c) \<and> p \<noteq> ''null'' \<and>
      (case sz of None \<Rightarrow> ''card'' | Some s \<Rightarrow> s) \<notin> set objectPrototypeNames"
  then have ne: "p \<noteq> []" by auto
  then have hd: "(\<exists>q. p = CHR ''/'' # q) \<longleftrightarrow> hd p = CHR ''/''" by (cases p) auto
  from a ne show "getImageUrl (JStr p) sz =
      ImageUrl
        (TMDB_IMAGE_BASE
         @ (case imageSizes (case sz of None \<Rightarrow> ''card'' | Some s \<Rightarrow> s) of
              Some w \<Rightarrow> w | None \<Rightarrow> ''w342'')
         @ (if hd p = CHR ''/'' then p else CHR ''/'' # p))"
    by (simp add: trim_empty_iff sizeString_own cleanPath_def startsWith_slash hd)
qed

theorem getImageUrl_result_witness:
  "getImageUrl Null None = NoImage \<and>
   getImageUrl (JStr ''  '') None = NoImage \<and>
   getImageUrl (JStr ''poster.jpg'') (Some ''huge'') =
     ImageUrl ''https://image.tmdb.org/t/p/w342/poster.jpg''"
proof -
  note blank = getImageUrl_result [of Null None "''  ''"]
  note poster = getImageUrl_result [of Null "Some ''huge''" "''poster.jpg''"]
  have "\<forall>p. Null \<noteq> JStr p" by simp
  with blank have c1: "getImageUrl Null None = NoImage" by blast
  have "\<forall>c\<in>set ''  ''. isWhiteSpace c" by (simp add: isWhiteSpace_def)
  with blank have c2: "getImageUrl (JStr ''  '') None = NoImage" by blast
  have "\<not> (\<forall>c\<in>set ''poster.jpg''. isWhiteSpace c)" by (simp add: isWhiteSpace_def)
  moreover have "''poster.jpg'' \<noteq> ''null''" by simp
  moreover have "(case Some ''huge'' of None \<Rightarrow> ''card'' | Some s \<Rightarrow> s) \<notin> set objectPrototypeNames"
    by (simp add: objectPrototypeNames_def)
  ultimately have "getImageUrl (JStr ''poster.jpg'') (Some ''huge'') =
      ImageUrl
        (TMDB_IMAGE_BASE
         @ (case imageSizes (case Some ''huge'' of None \<Rightarrow> ''card'' | Some s \<Rightarrow> s) of
              Some w \<Rightarrow> w | None \<Rightarrow> ''w342'')
         @ (if hd ''poster.jpg'' = CHR ''/'' then ''poster.jpg'' else CHR ''/'' # ''poster.jpg''))"
    using poster by blast
  then have c3: "getImageUrl (JStr ''poster.jpg'') (Some ''huge'') =
     ImageUrl ''https://image.tmdb.org/t/p/w342/poster.jpg''"
    by (simp add: imageSizes_def TMDB_IMAGE_BASE_def)
  from c1 c2 c3 show ?thesis by blast
qed

theorem getImageUrl_counterexample:
  "getImageUrl (JStr ''//x.jpg'') None = ImageUrl ''https://image.tmdb.org/t/p/w342//x.jpg'' \<and>
   getImageUrl (JStr ''/x.jpg'') (Some ''toString'') \<noteq>
     ImageUrl ''https://image.tmdb.org/t/p/w342/x.jpg''"
  by (simp add: trim_def isWhiteSpace_def sizeString_def getProperty_def imageSizes_def
      objectPrototypeNames_def cleanPath_def startsWith_def TMDB_IMAGE_BASE_def)

subsection \<open>Category endpoints\<close>

text \<open>
  Claim C9, as amended. In movie mode every category other than \<^verbatim>\<open>filipino\<close> and the
  eight genre names is mapped to the canonical-list endpoint \<^verbatim>\<open>/movie/{category}\<close>, the
  category string itself being the list name; a genre name is mapped to
  \<^verbatim>\<open>/discover/movie\<close> with its genre id, and \<^verbatim>\<open>filipino\<close> to \<^verbatim>\<open>/discover/movie\<close>
  with the language filter. In TV mode a category of \<^verbatim>\<open>tvCatMap\<close> is mapped to
  \<^verbatim>\<open>/tv/{name}\<close>, where the name is the list name the table gives for the category
  (not the category string), to \<^verbatim>\<open>/discover/tv\<close> with the genre id of the table, or,
  for \<^verbatim>\<open>tagalog_tv\<close>, to \<^verbatim>\<open>/discover/tv\<close> with the language filter.
\<close>

theorem categoryEndpoint_shapes:
  "(cat \<noteq> ''filipino'' \<and> cat \<notin> set movieGenres \<longrightarrow>
      categoryEndpoint key False cat n =
        Some (API_ROOT @ ''movie/'' @ cat @ ''?api_key='' @ keyText key @ ''&page=''
              @ string_of_nat n)) \<and>
   (genreMap cat = Some g \<longrightarrow>
      categoryEndpoint key False cat n =
        Some (API_ROOT @ ''discover/movie?api_key='' @ keyText key @ ''&with_genres=''
              @ string_of_nat g @ ''&sort_by=popularity.desc&page='' @ string_of_nat n)) \<and>
   categoryEndpoint key False ''filipino'' n =
     Some (API_ROOT @ ''discover/movie?api_key='' @ keyText key
           @ ''&with_original_language=tl&region=PH&sort_by=popularity.desc&page=''
           @ string_of_nat n) \<and>
   (tvCatMap cat = Some (ListName l) \<and> l \<noteq> ''tagalog_tv'' \<longrightarrow>
      categoryEndpoint key True cat n =
        Some (API_ROOT @ ''tv/'' @ l @ ''?api_key='' @ keyText key @ ''&page=''
              @ string_of_nat n)) \<and>
   (tvCatMap cat = Some (GenreId g) \<longrightarrow>
      categoryEndpoint key True cat n =
        Some (API_ROOT @ ''discover/tv?api_key='' @ keyText key @ ''&with_genres=''
              @ string_of_nat g @ ''&sort_by=popularity.desc&page='' @ string_of_nat n)) \<and>
   categoryEndpoint key True ''tagalog_tv'' n =
     Some (API_ROOT @ ''discover/tv?api_key='' @ keyText key
           @ ''&with_original_language=tl&sort_by=popularity.desc&page='' @ string_of_nat n)"
proof (intro conjI impI)
  assume "cat \<noteq> ''filipino'' \<and> cat \<notin> set movieGenres"
  then show "categoryEndpoint key False cat n =
        Some (API_ROOT @ ''movie/'' @ cat @ ''?api_key='' @ keyText key @ ''&page=''
              @ string_of_nat n)"
    by (simp add: categoryEndpoint_def)
next
  assume "genreMap cat = Some g"
  then show "categoryEndpoint key False cat n =
        Some (API_ROOT @ ''discover/movie?api_key='' @ keyText key @ ''&with_genres=''
              @ string_of_nat g @ ''&sort_by=popularity.desc&page='' @ string_of_nat n)"
    by (auto simp: categoryEndpoint_def genreMap_def movieGenres_def split: if_splits)
next
  show "categoryEndpoint key False ''filipino'' n =
     Some (API_ROOT @ ''discover/movie?api_key='' @ keyText key
           @ ''&with_original_language=tl&region=PH&sort_by=popularity.desc&page=''
           @ string_of_nat n)"
    by (simp add: categoryEndpoint_def)
next
  assume "tvCatMap cat = Some (ListName l) \<and> l \<noteq> ''tagalog_tv''"
  then show "categoryEndpoint key True cat n =
        Some (API_ROOT @ ''tv/'' @ l @ ''?api_key='' @ keyText key @ ''&page=''
              @ string_of_nat n)"
    by (simp add: categoryEndpoint_def getProperty_def)
next
  assume "tvCatMap cat = Some (GenreId g)"
  then show "categoryEndpoint key True cat n =
        Some (API_ROOT @ ''discover/tv?api_key='' @ keyText key @ ''&with_genres=''
              @ string_of_nat g @ ''&sort_by=popularity.desc&page='' @ string_of_nat n)"
    by (simp add: categoryEndpoint_def getProperty_def)
next
  show "categoryEndpoint key True ''tagalog_tv'' n =
     Some (API_ROOT @ ''discover/tv?api_key='' @ keyText key
           @ ''&with_original_language=tl&sort_by=popularity.desc&page='' @ string_of_nat n)"
    by (simp add: categoryEndpoint_def getProperty_def tvCatMap_def)
qed

theorem categoryEndpoint_shapes_witness:
  "categoryEndpoint (Some ''K'') False ''upcoming'' 2 =
     Some ''https://api.themoviedb.org/3/movie/upcoming?api_key=K&page=2'' \<and>
   categoryEndpoint (Some ''K'') False ''horror'' 1 =
     Some ''https://api.themoviedb.org/3/discover/movie?api_key=K&with_genres=27&sort_by=popularity.desc&page=1'' \<and>
   categoryEndpoint (Some ''K'') True ''on_the_air'' 3 =
     Some ''https://api.themoviedb.org/3/tv/on_the_air?api_key=K&page=3'' \<and>
   categoryEndpoint (Some ''K'') True ''tv_drama'' 1 =
     Some ''https://api.themoviedb.org/3/discover/tv?api_key=K&with_genres=18&sort_by=popularity.desc&page=1''"
  using categoryEndpoint_shapes [of "''upcoming''" "Some ''K''" 2 27 "''x''"]
    categoryEndpoint_shapes [of "''horror''" "Some ''K''" 1 27 "''x''"]
    categoryEndpoint_shapes [of "''on_the_air''" "Some ''K''" 3 27 "''on_the_air''"]
    categoryEndpoint_shapes [of "''tv_drama''" "Some ''K''" 1 18 "''x''"]
  by (simp add: movieGenres_def genreMap_def tvCatMap_def API_ROOT_def keyText_def
      string_of_nat.simps digit_def)

theorem categoryEndpoint_counterexample:
  "categoryEndpoint (Some ''K'') True ''popular_tv'' 1 =
     Some ''https://api.themoviedb.org/3/tv/popular?api_key=K&page=1'' \<and>
   categoryEndpoint (Some ''K'') True ''popular_tv'' 1 \<noteq>
     Some ''https://api.themoviedb.org/3/tv/popular_tv?api_key=K&page=1''"
  by (simp add: categoryEndpoint_def getProperty_def tvCatMap_def API_ROOT_def keyText_def
      string_of_nat.simps digit_def)

subsection \<open>Page fetches\<close>

text \<open>
  Claim C5. When the first-page fetch of \<^verbatim>\<open>fetchTrending\<close> succeeds with the results
  \<open>[A, B]\<close> (identifiers 1 and 2) and \<^verbatim>\<open>total_pages\<close> 5, the state has the
  accumulator \<open>[A, B]\<close>, page 1, the featured item \<open>A\<close> and \<^verbatim>\<open>hasMore\<close> true. In
  general, after a successful fetch of page \<open>n\<close> whose response carries
  \<^verbatim>\<open>total_pages\<close>, \<^verbatim>\<open>hasMore\<close> is \<open>n < total_pages\<close> and the page is \<open>n\<close>.
\<close>

theorem fetchTrending_success:
  "(let st' = respond continue (length (pending st)) (Reply 200 pageOne) (fetchTrending 1 st)
    in movies st' = [itemA, itemB] \<and> page st' = 1 \<and> featured st' = Some itemA
       \<and> hasMore st' = True) \<and>
   (ok status \<and> total_pages d = Some tp \<longrightarrow>
      (let st' = respond continue (length (pending st)) (Reply status d) (fetchTrending n st)
       in hasMore st' = (n < tp) \<and> page st' = n
          \<and> movies st' =
              (if n = 1 then orEmpty (results d) else movies st @ orEmpty (results d))
          \<and> featured st' = (if n = 1 then first (orEmpty (results d)) else featured st)
          \<and> loading st' = False \<and> error st' = None \<and> pending st' = pending st))"
  by (simp add: fetchTrending_def respond_sent continue_def pageLoaded_def ok_def orEmpty_def
      first_def pageOne_def Let_def)

theorem fetchTrending_success_witness:
  "ok 200 \<and> total_pages pageTwo = Some 5 \<and>
   (let st' = respond continue 0 (Reply 200 pageTwo)
                (fetchTrending 2 ((initial (Some ''K''))\<lparr>movies := [itemA]\<rparr>))
    in hasMore st' = True \<and> page st' = 2 \<and> movies st' = [itemA, itemB, itemC])"
  using fetchTrending_success
    [of "(initial (Some ''K''))\<lparr>movies := [itemA]\<rparr>" 200 pageTwo 5 2]
  by (simp add: ok_def pageTwo_def initial_def orEmpty_def Let_def)

text \<open>
  The part_000 component reads \<^verbatim>\<open>data.total_pages || 1\<close>, which gives the same
  \<^verbatim>\<open>hasMore\<close> for every page number from 1 on.
\<close>

lemma pageLoaded_v1_success:
  "ok status \<and> results d = Some rs \<and> total_pages d = Some tp \<and> 1 \<le> n \<longrightarrow>
     (let st' = pageLoaded_v1 n b (Reply status d) st
      in hasMore st' = (n < tp) \<and> page st' = n)"
  by (auto simp: pageLoaded_v1_def checkPage_v1_def Let_def)

text \<open>
  Claim C4, as amended. A page fetch that fails raises no exception out of the component
  and sets a message. In \<^verbatim>\<open>src/App.js\<close> every failure leaves the accumulated list and
  the featured item as they are, and the message is \<^verbatim>\<open>Failed to load content\<close>. In the
  part_000 component a failure of a page other than the first leaves the accumulated list
  as it is, a failure of the first page empties the list and the featured item, and the
  message is the one of the error (for status 429 the rate-limit message). In both, the
  grid is not rendered while the message is set: the list is kept in the state.
\<close>

theorem page_failure:
  "(failed r \<longrightarrow>
      (let st' = pageLoaded n r st
       in movies st' = movies st \<and> featured st' = featured st
          \<and> error st' = Some ''Failed to load content'' \<and> loading st' = False
          \<and> \<not> gridShown st')) \<and>
   (checkPage_v1 r = Inl m \<longrightarrow>
      (let st' = pageLoaded_v1 n b r st
       in error st' = Some (orElse m ''Failed to load content'')
          \<and> orElse m ''Failed to load content'' \<noteq> []
          \<and> (n \<noteq> 1 \<longrightarrow> movies st' = movies st \<and> featured st' = featured st)
          \<and> (n = 1 \<longrightarrow> movies st' = [] \<and> featured st' = None)
          \<and> \<not> gridShown_v1 st')) \<and>
   checkPage_v1 (Reply 429 d) = Inl rateLimitMessage"
proof (intro conjI impI)
  assume "failed r"
  then show "let st' = pageLoaded n r st
       in movies st' = movies st \<and> featured st' = featured st
          \<and> error st' = Some ''Failed to load content'' \<and> loading st' = False
          \<and> \<not> gridShown st'"
    by (cases r) (simp_all add: failed_def pageLoaded_def gridShown_def)
next
  assume "checkPage_v1 r = Inl m"
  then show "let st' = pageLoaded_v1 n b r st
       in error st' = Some (orElse m ''Failed to load content'')
          \<and> orElse m ''Failed to load content'' \<noteq> []
          \<and> (n \<noteq> 1 \<longrightarrow> movies st' = movies st \<and> featured st' = featured st)
          \<and> (n = 1 \<longrightarrow> movies st' = [] \<and> featured st' = None)
          \<and> \<not> gridShown_v1 st'"
    by (simp add: pageLoaded_v1_def gridShown_v1_def orElse_def Let_def)
next
  show "checkPage_v1 (Reply 429 d) = Inl rateLimitMessage"
    by (simp add: checkPage_v1_def ok_def)
qed

theorem page_failure_witness:
  "failed (Reply 429 pageOne) \<and>
   movies (pageLoaded 1 (Reply 429 pageOne)
             ((initial (Some ''K''))\<lparr>movies := [itemA, itemB, itemC]\<rparr>)) = [itemA, itemB, itemC] \<and>
   checkPage_v1 (Reply 429 pageOne) = Inl rateLimitMessage \<and>
   (let st' = pageLoaded_v1 2 False (Reply 429 pageOne)
                ((initial (Some ''K''))\<lparr>movies := [itemA, itemB, itemC]\<rparr>)
    in movies st' = [itemA, itemB, itemC] \<and> error st' = Some rateLimitMessage)"
proof -
  note app = page_failure [where r = "Reply 429 pageOne" and n = 1
      and st = "(initial (Some ''K''))\<lparr>movies := [itemA, itemB, itemC]\<rparr>"]
  note v1 = page_failure [where r = "Reply 429 pageOne" and n = 2 and b = False
      and m = rateLimitMessage
      and st = "(initial (Some ''K''))\<lparr>movies := [itemA, itemB, itemC]\<rparr>"]
  have h1: "failed (Reply 429 pageOne)" by (simp add: failed_def ok_def)
  have h2: "checkPage_v1 (Reply 429 pageOne) = Inl rateLimitMessage"
    by (simp add: checkPage_v1_def ok_def)
  have h3: "orElse rateLimitMessage ''Failed to load content'' = rateLimitMessage"
    by (simp add: orElse_def rateLimitMessage_def)
  from app h1 have "movies (pageLoaded 1 (Reply 429 pageOne)
             ((initial (Some ''K''))\<lparr>movies := [itemA, itemB, itemC]\<rparr>)) = [itemA, itemB, itemC]"
    by (simp add: Let_def)
  moreover from v1 h2 h3 have "let st' = pageLoaded_v1 2 False (Reply 429 pageOne)
                ((initial (Some ''K''))\<lparr>movies := [itemA, itemB, itemC]\<rparr>)
    in movies st' = [itemA, itemB, itemC] \<and> error st' = Some rateLimitMessage"
    by (simp add: Let_def)
  ultimately show ?thesis using h1 h2 by blast
qed

theorem page_failure_counterexample:
  "movies ((initial (Some ''K''))\<lparr>movies := [itemA, itemB, itemC]\<rparr>) = [itemA, itemB, itemC] \<and>
   movies (pageLoaded_v1 1 True (Reply 429 pageOne)
             ((initial (Some ''K''))\<lparr>movies := [itemA, itemB, itemC]\<rparr>)) = []"
  by (simp add: pageLoaded_v1_def checkPage_v1_def ok_def initial_def Let_def)

subsection \<open>Merging pages\<close>

lemma mergePage_distinct:
  assumes "distinct (map item_id prev)" and "distinct (map item_id new)"
  shows "distinct (map item_id (mergePage prev new))"
proof -
  have "distinct (map item_id (filter (\<lambda>item. item_id item \<notin> set (map item_id prev)) new))"
    using assms(2) by (rule distinct_map_filter)
  moreover have "set (map item_id prev)
      \<inter> set (map item_id (filter (\<lambda>item. item_id item \<notin> set (map item_id prev)) new)) = {}"
    by (fastforce simp: image_iff)
  ultimately show ?thesis
    using assms(1) by (simp add: mergePage_def Let_def)
qed

lemma pageLoaded_v1_distinct:
  assumes "distinct (map item_id (movies st))" and "pageDistinct r"
  shows "distinct (map item_id (movies (pageLoaded_v1 n b r st)))"
proof (cases "checkPage_v1 r")
  case (Inl m)
  then show ?thesis
    using assms(1) by (simp add: pageLoaded_v1_def Let_def)
next
  case (Inr vd)
  obtain valid d where vd: "vd = (valid, d)" by (cases vd)
  from Inr vd assms(2) have "distinct (map item_id valid)"
    by (auto simp: checkPage_v1_def pageDistinct_def split: response.splits if_splits
        option.splits)
  with Inr vd assms(1) show ?thesis
    by (simp add: pageLoaded_v1_def Let_def mergePage_distinct)
qed

text \<open>
  Claim C1, as amended. In the part_000 component, when no identifier occurs twice among
  the valid items of any single page, then after every sequence of page responses applied
  to an accumulator without duplicates each identifier occurs at most once in the
  accumulator; a merge (a page other than the first, \<^verbatim>\<open>shouldReset\<close> false) keeps the
  accumulated items in place and appends, of the valid items of the page, those whose
  identifier is not yet in the accumulator.
\<close>

theorem merge_keeps_identifiers_distinct:
  "(distinct (map item_id (movies st)) \<and> (\<forall>(n, b, r)\<in>set ps. pageDistinct r) \<longrightarrow>
      distinct (map item_id (movies (loadPages_v1 ps st)))) \<and>
   (ok status \<and> results d = Some rs \<and> n \<noteq> 1 \<longrightarrow>
      movies (pageLoaded_v1 n False (Reply status d) st) =
        movies st
        @ filter (\<lambda>item. item_id item \<notin> item_id ` set (movies st))
            (filter isValidMediaItem rs))"
proof (intro conjI impI)
  assume a: "distinct (map item_id (movies st)) \<and> (\<forall>(n, b, r)\<in>set ps. pageDistinct r)"
  have "distinct (map item_id (movies s)) \<Longrightarrow> (\<forall>(n, b, r)\<in>set qs. pageDistinct r) \<Longrightarrow>
      distinct (map item_id (movies (fold (\<lambda>(n, b, r). pageLoaded_v1 n b r) qs s)))" for qs s
  proof (induction qs arbitrary: s)
    case Nil
    then show ?case by simp
  next
    case (Cons q qs)
    obtain n b r where q: "q = (n, b, r)" by (cases q)
    with Cons.prems have "distinct (map item_id (movies (pageLoaded_v1 n b r s)))"
      by (simp add: pageLoaded_v1_distinct)
    with Cons.IH [of "pageLoaded_v1 n b r s"] Cons.prems(2) q show ?case by simp
  qed
  with a show "distinct (map item_id (movies (loadPages_v1 ps st)))"
    by (simp add: loadPages_v1_def)
next
  assume "ok status \<and> results d = Some rs \<and> n \<noteq> 1"
  then show "movies (pageLoaded_v1 n False (Reply status d) st) =
        movies st
        @ filter (\<lambda>item. item_id item \<notin> item_id ` set (movies st))
            (filter isValidMediaItem rs)"
    by (simp add: pageLoaded_v1_def checkPage_v1_def mergePage_def Let_def)
qed

theorem merge_keeps_identifiers_distinct_witness:
  "distinct (map item_id [itemA, itemB]) \<and> pageDistinct (Reply 200 pageTwo) \<and>
   ok 200 \<and> results pageTwo = Some [itemB, itemC] \<and>
   movies (pageLoaded_v1 2 False (Reply 200 pageTwo)
             ((initial (Some ''K''))\<lparr>movies := [itemA, itemB]\<rparr>)) = [itemA, itemB, itemC] \<and>
   distinct (map item_id
     (movies (loadPages_v1 [(2, False, Reply 200 pageTwo)]
                ((initial (Some ''K''))\<lparr>movies := [itemA, itemB]\<rparr>))))"
proof -
  note m = merge_keeps_identifiers_distinct
    [of "(initial (Some ''K''))\<lparr>movies := [itemA, itemB]\<rparr>" "[(2, False, Reply 200 pageTwo)]"
        200 pageTwo "[itemB, itemC]" 2]
  have h1: "distinct (map item_id [itemA, itemB])"
    by (simp add: itemA_def itemB_def)
  have h2: "pageDistinct (Reply 200 pageTwo)"
    by (simp add: pageDistinct_def pageTwo_def isValidMediaItem_def itemB_def itemC_def)
  have h3: "ok 200" by (simp add: ok_def)
  have h4: "results pageTwo = Some [itemB, itemC]" by (simp add: pageTwo_def)
  from m h1 h2 have c1: "distinct (map item_id
     (movies (loadPages_v1 [(2, False, Reply 200 pageTwo)]
                ((initial (Some ''K''))\<lparr>movies := [itemA, itemB]\<rparr>))))"
    by simp
  from m h3 h4 have "movies (pageLoaded_v1 2 False (Reply 200 pageTwo)
             ((initial (Some ''K''))\<lparr>movies := [itemA, itemB]\<rparr>)) =
        [itemA, itemB]
        @ filter (\<lambda>item. item_id item \<notin> item_id ` set [itemA, itemB])
            (filter isValidMediaItem [itemB, itemC])"
    by simp
  then have c2: "movies (pageLoaded_v1 2 False (Reply 200 pageTwo)
             ((initial (Some ''K''))\<lparr>movies := [itemA, itemB]\<rparr>)) = [itemA, itemB, itemC]"
    by (simp add: isValidMediaItem_def itemA_def itemB_def itemC_def)
  from h1 h2 h3 h4 c1 c2 show ?thesis by blast
qed

theorem merge_counterexample:
  "movies (run_v1 [Mount, Respond 0 (Reply 200 pageOne), LoadMore, Respond 0 (Reply 200 pageDup)]
             (initial (Some ''K''))) = [itemA, itemB, itemC, itemC2] \<and>
   \<not> distinct (map item_id [itemA, itemB, itemC, itemC2])"
  by code_simp

text \<open>
  \<^verbatim>\<open>src/App.js\<close> appends the page as it is: the second page \<open>[B, C]\<close> after the first
  page \<open>[A, B]\<close> gives \<open>[A, B, B, C]\<close>.
\<close>

lemma pageLoaded_appends:
  "movies (run [Mount, Respond 0 (Reply 200 pageOne), LoadMore, Respond 0 (Reply 200 pageTwo)]
             (initial (Some ''K''))) = [itemA, itemB, itemB, itemC]"
  by code_simp

subsection \<open>Load more\<close>

lemma commit_v1_idle: "attached_v1 st \<Longrightarrow> commit_v1 st = st"
  by (simp add: attached_v1_def commit_v1_def split: option.splits)

lemma rendered_v1_same: "attached_v1 st \<Longrightarrow> rendered_v1 st st = st"
  by (simp add: rendered_v1_def commit_v1_idle observerEffect_v1_def loadDataEffect_v1_def
      Let_def)

text \<open>
  The guard of \<^verbatim>\<open>handleLoadMore\<close> in the part_000 component: while the \<^verbatim>\<open>loading\<close>
  flag is set, or while \<^verbatim>\<open>hasMore\<close> is false, an invocation sends nothing and changes
  nothing (nor does the render that follows, when the observed cell is in the grid).
  Otherwise it sends one request for the next page and leaves the flag unset
  (\<^verbatim>\<open>shouldReset\<close> is false), so the guard does not see the fetch it has started.
\<close>

lemma handleLoadMore_v1_guard:
  "(loading st \<or> \<not> hasMore st \<longrightarrow>
      handleLoadMore_v1 st = st \<and> (attached_v1 st \<longrightarrow> step_v1 LoadMore st = st)) \<and>
   (\<not> loading st \<and> hasMore st \<and> \<not> keyMissing (apiKey st) \<longrightarrow>
      (let st' = handleLoadMore_v1 st
       in (\<exists>u. pending st' = pending st @ [PageRequest u (page st + 1) False])
          \<and> \<not> loading st' \<and> hasMore st'))"
  by (simp add: handleLoadMore_v1_def step_v1_def rendered_v1_same fetchTrending_v1_def
      fetchByCategory_v1_def send_def Let_def)

text \<open>
  Claim C3, at the failing input. In the part_000 component, after the first page has
  loaded, two invocations of \<^verbatim>\<open>handleLoadMore\<close> in a row, the second while the fetch of
  the first is pending, leave two requests for page 2 in flight.
\<close>

theorem load_more_twice_v1:
  "pending (run_v1 [Mount, Respond 0 (Reply 200 pageOne), LoadMore, LoadMore]
              (initial (Some ''K''))) =
     [PageRequest
        (Some ''https://api.themoviedb.org/3/trending/movie/week?api_key=K&page=2&language=en'')
        2 False,
      PageRequest
        (Some ''https://api.themoviedb.org/3/trending/movie/week?api_key=K&page=2&language=en'')
        2 False]"
  by code_simp

text \<open>
  \<^verbatim>\<open>src/App.js\<close> sets \<^verbatim>\<open>loading\<close> in every fetch; its \<^verbatim>\<open>handleLoadMore\<close> has no guard
  of its own.
\<close>

lemma handleLoadMore_sets_loading:
  "loading (handleLoadMore st) \<and> length (pending (handleLoadMore st)) = Suc (length (pending st))"
  by (simp add: handleLoadMore_def fetchTrending_def fetchByCategory_def send_def)

subsection \<open>Typing a query\<close>

lemma trim_Nil: "trim [] = []"
  by (simp add: trim_def)

lemma untyped_props:
  "set (untyped st) \<subseteq> set (timers st)"
  "typingTimeoutRef st = Some h \<Longrightarrow> (h, d, k) \<notin> set (untyped st)"
  by (auto simp: untyped_def split: option.splits)

lemma untyped_search: "untyped (st\<lparr>search := v\<rparr>) = untyped st"
  by (simp add: untyped_def split: option.splits)

lemma untyped_again:
  "typingTimeoutRef s = typingTimeoutRef st \<Longrightarrow> timers s = untyped st \<Longrightarrow> untyped s = untyped st"
  by (auto simp: untyped_def split: option.splits)

lemma endpointFor_page: "endpointFor (st\<lparr>page := p, hasMore := h\<rparr>) n = endpointFor st n"
  by (simp add: endpointFor_def)

lemma fetchCurrentCategory_sends:
  "fetchCurrentCategory st =
     send (PageRequest (endpointFor st 1) 1 True) (st\<lparr>loading := True, error := None\<rparr>)"
  by (simp add: fetchCurrentCategory_def fetchTrending_def fetchByCategory_def endpointFor_def)

lemma handleLoadMore_sends:
  "handleLoadMore st =
     st\<lparr>loading := True, error := None,
        pending := pending st @ [PageRequest (endpointFor st (page st + 1)) (page st + 1) True],
        issued := issued st @ [PageRequest (endpointFor st (page st + 1)) (page st + 1) True]\<rparr>"
  by (simp add: handleLoadMore_def fetchTrending_def fetchByCategory_def send_def endpointFor_def)

text \<open>
  The document and the observer's effect change nothing but the observer; the effect that
  loads the data does not read it.
\<close>

lemma commit_watch: "\<exists>w. commit st = st\<lparr>scrollWatch := w\<rparr>"
proof (cases "commit st = st")
  case True
  then have "commit st = st\<lparr>scrollWatch := scrollWatch st\<rparr>" by simp
  then show ?thesis ..
next
  case False
  then have "commit st = st\<lparr>scrollWatch := None\<rparr>"
    by (simp add: commit_def split: option.splits if_splits)
  then show ?thesis ..
qed

lemma observerEffect_watch:
  "\<exists>w'. observerEffect prev (st\<lparr>scrollWatch := w\<rparr>) = st\<lparr>scrollWatch := w'\<rparr>"
proof (cases "observerDeps prev = observerDeps (st\<lparr>scrollWatch := w\<rparr>)")
  case True
  then have "observerEffect prev (st\<lparr>scrollWatch := w\<rparr>) = st\<lparr>scrollWatch := w\<rparr>"
    by (simp add: observerEffect_def)
  then show ?thesis ..
next
  case False
  show ?thesis
  proof (cases "loading st \<or> \<not> hasMore st \<or> trim (search st) \<noteq> []")
    case True
    with False
    have "observerEffect prev (st\<lparr>scrollWatch := w\<rparr>) = st\<lparr>scrollWatch := None\<rparr>"
      by (simp add: observerEffect_def observerBody_def)
    then show ?thesis ..
  next
    case g: False
    with False have "observerEffect prev (st\<lparr>scrollWatch := w\<rparr>)
        = st\<lparr>scrollWatch := lastMovieRef (st\<lparr>scrollWatch := None\<rparr>)\<rparr>"
      by (simp add: observerEffect_def observerBody_def)
    then show ?thesis ..
  qed
qed

lemma loadDataEffect_watch:
  "loadDataEffect prev (st\<lparr>scrollWatch := w\<rparr>) = (loadDataEffect prev st)\<lparr>scrollWatch := w\<rparr>"
  by (simp add: loadDataEffect_def loadDataDeps_def loadDataBody_def clearTyping_def
      clearTimeout_def fetchCurrentCategory_def fetchTrending_def fetchByCategory_def send_def
      split: option.splits)

lemma rendered_watch: "\<exists>w. rendered prev st = (loadDataEffect prev st)\<lparr>scrollWatch := w\<rparr>"
proof -
  obtain a where a: "commit st = st\<lparr>scrollWatch := a\<rparr>"
    using commit_watch by blast
  obtain b where b: "observerEffect prev (st\<lparr>scrollWatch := a\<rparr>) = st\<lparr>scrollWatch := b\<rparr>"
    using observerEffect_watch by blast
  let ?l = "loadDataEffect prev st"
  obtain c where c: "commit (?l\<lparr>scrollWatch := b\<rparr>) = ?l\<lparr>scrollWatch := c\<rparr>"
    using commit_watch [of "?l\<lparr>scrollWatch := b\<rparr>"] by auto
  obtain d where d: "observerEffect (st\<lparr>scrollWatch := b\<rparr>) (?l\<lparr>scrollWatch := c\<rparr>)
      = ?l\<lparr>scrollWatch := d\<rparr>"
    using observerEffect_watch by blast
  have "rendered prev st = ?l\<lparr>scrollWatch := d\<rparr>"
    by (simp add: rendered_def Let_def a b loadDataEffect_watch c d)
  then show ?thesis ..
qed

lemma clearTyping_fields:
  "search (clearTyping st) = search st"
  "category (clearTyping st) = category st"
  "showTVSeriesPage (clearTyping st) = showTVSeriesPage st"
  "apiKey (clearTyping st) = apiKey st"
  "typingTimeoutRef (clearTyping st) = typingTimeoutRef st"
  "suggestions (clearTyping st) = suggestions st"
  "searchResults (clearTyping st) = searchResults st"
  "isSearching (clearTyping st) = isSearching st"
  "page (clearTyping st) = page st"
  "hasMore (clearTyping st) = hasMore st"
  "loading (clearTyping st) = loading st"
  "issued (clearTyping st) = issued st"
  "pending (clearTyping st) = pending st"
  "timers (clearTyping st) = untyped st"
  by (simp_all add: clearTyping_def clearTimeout_def untyped_def split: option.splits)

lemma loadDataEffect_cases:
  "loadDataEffect prev st =
     (if category prev = category st \<and> showTVSeriesPage prev = showTVSeriesPage st
         \<and> search prev = search st then st
      else if search st = []
           then fetchCurrentCategory ((clearTyping st)\<lparr>page := 1, hasMore := True\<rparr>)
           else clearTyping st)"
  by (simp add: loadDataEffect_def loadDataDeps_def loadDataBody_def clearTyping_fields)

lemma handleSearchChange_empty:
  assumes "trim v = []"
  shows "search (handleSearchChange v st) = v"
    and "timers (handleSearchChange v st) = untyped st"
    and "suggestions (handleSearchChange v st) = []"
    and "searchResults (handleSearchChange v st) = []"
    and "isSearching (handleSearchChange v st) = False"
    and "page (handleSearchChange v st) = 1"
    and "hasMore (handleSearchChange v st) = True"
    and "loading (handleSearchChange v st) = True"
    and "pending (handleSearchChange v st) = pending st @ [PageRequest (endpointFor st 1) 1 True]"
    and "issued (handleSearchChange v st) = issued st @ [PageRequest (endpointFor st 1) 1 True]"
    and "category (handleSearchChange v st) = category st"
    and "showTVSeriesPage (handleSearchChange v st) = showTVSeriesPage st"
    and "apiKey (handleSearchChange v st) = apiKey st"
    and "typingTimeoutRef (handleSearchChange v st) = typingTimeoutRef st"
  using assms
  by (simp_all add: handleSearchChange_def Let_def fetchCurrentCategory_sends send_def
      clearTyping_fields endpointFor_def untyped_search)

lemma after_clear:
  assumes "trim v = []"
  shows "untyped (handleSearchChange v st) = untyped st"
    and "endpointFor (clearTyping (handleSearchChange v st)) n = endpointFor st n"
proof -
  note hs = handleSearchChange_empty [OF assms, of st]
  show "untyped (handleSearchChange v st) = untyped st"
    by (rule untyped_again) (simp_all add: hs)
  show "endpointFor (clearTyping (handleSearchChange v st)) n = endpointFor st n"
    by (simp add: endpointFor_def clearTyping_fields hs)
qed

text \<open>
  What \<^verbatim>\<open>src/App.js\<close> does do, for every state, when the query value changes to a
  string that trims to empty: at once, without a timer, it empties the suggestions and
  the search results, sets \<^verbatim>\<open>isSearching\<close> false, the page to 1 and \<^verbatim>\<open>hasMore\<close>
  true, and sends the request for the first page of the current category, twice when the
  new value is the empty string and the previous one was not (once from the handler, once
  from the effect). It arms no timer, and of the pending timers it cancels the one whose
  handle \<^verbatim>\<open>typingTimeoutRef\<close> holds and no other.
\<close>

lemma clear_query_state:
  assumes "trim v = []"
  shows "let st' = step (Type v) st; rq = PageRequest (endpointFor st 1) 1 True
      in search st' = v \<and> suggestions st' = [] \<and> searchResults st' = []
         \<and> isSearching st' = False \<and> page st' = 1 \<and> hasMore st' = True \<and> loading st' = True
         \<and> timers st' = untyped st
         \<and> issued st' = issued st @ (if v = [] \<and> search st \<noteq> [] then [rq, rq] else [rq])
         \<and> pending st' = pending st @ (if v = [] \<and> search st \<noteq> [] then [rq, rq] else [rq])"
proof -
  obtain w where st': "step (Type v) st
      = (loadDataEffect st (handleSearchChange v st))\<lparr>scrollWatch := w\<rparr>"
    using rendered_watch [of st "handleSearchChange v st"] by (auto simp: step_def)
  show ?thesis
    using assms
    by (simp add: st' Let_def loadDataEffect_cases handleSearchChange_empty
          fetchCurrentCategory_sends send_def clearTyping_fields after_clear trim_Nil
          endpointFor_page)
qed

text \<open>
  Claim C6, at the failing input. In \<^verbatim>\<open>src/App.js\<close>, with the first page loaded, the
  value \<^verbatim>\<open>ba\<close> is typed and, 100 ms later, the value is cleared. The handler has stored
  the handles of both timers in the one \<^verbatim>\<open>typingTimeoutRef\<close>, so the clear cannot
  cancel the suggestion timer of \<^verbatim>\<open>ba\<close>: it is still pending after the clear. 200 ms
  later it fires and the suggestion request for \<^verbatim>\<open>ba\<close> is sent; the response is stored
  in \<^verbatim>\<open>suggestions\<close> while the query is empty, and it is on display as soon as the
  query has two characters again.
\<close>

theorem clear_leaves_suggestion_timer:
  "timers (run [Mount, Respond 0 (Reply 200 pageOne), Type ''ba'', Wait 100, Type []]
             (initial (Some ''K''))) = [(1, 300, SuggestTask ''ba'')] \<and>
   search (run [Mount, Respond 0 (Reply 200 pageOne), Type ''ba'', Wait 100, Type []]
             (initial (Some ''K''))) = [] \<and>
   last (issued (run [Mount, Respond 0 (Reply 200 pageOne), Type ''ba'', Wait 100, Type [],
                      Wait 200] (initial (Some ''K'')))) = SuggestionRequest ''ba'' \<and>
   pending (run [Mount, Respond 0 (Reply 200 pageOne), Type ''ba'', Wait 100, Type [],
                 Wait 200] (initial (Some ''K''))) ! 2 = SuggestionRequest ''ba'' \<and>
   search (run [Mount, Respond 0 (Reply 200 pageOne), Type ''ba'', Wait 100, Type [],
                Wait 200, Respond 2 (Reply 200 pageTwo)] (initial (Some ''K''))) = [] \<and>
   suggestions (run [Mount, Respond 0 (Reply 200 pageOne), Type ''ba'', Wait 100, Type [],
                     Wait 200, Respond 2 (Reply 200 pageTwo)] (initial (Some ''K'')))
     = [itemB, itemC] \<and>
   suggestions (run [Mount, Respond 0 (Reply 200 pageOne), Type ''ba'', Wait 100, Type [],
                     Wait 200, Respond 2 (Reply 200 pageTwo), Type ''xy'']
                  (initial (Some ''K''))) = [itemB, itemC] \<and>
   suggestionsShown (run [Mount, Respond 0 (Reply 200 pageOne), Type ''ba'', Wait 100, Type [],
                          Wait 200, Respond 2 (Reply 200 pageTwo), Type ''xy'']
                       (initial (Some ''K'')))"
  by code_simp

text \<open>
  The first component of \<^verbatim>\<open>unnamed/part_000\<close> keeps the handle of the suggestion timer
  and cancels it at the clear; its search timer, the one of \<^verbatim>\<open>createDebounce\<close>, has no
  cancel. On the same input the full search for \<^verbatim>\<open>ba\<close> is sent after the clear, and
  its response empties the list of the browse view, which has been restored by then.
\<close>

lemma clear_leaves_search_timer_v1:
  "timers (run_v1 [Mount, Respond 0 (Reply 200 pageOne), Type ''ba'', Wait 100, Type []]
             (initial (Some ''K''))) = [(2, 500, SearchTask ''ba'')] \<and>
   movies (run_v1 [Mount, Respond 0 (Reply 200 pageOne), Type ''ba'', Wait 100, Type [],
                   Respond 0 (Reply 200 pageOne), Respond 0 (Reply 200 pageOne)]
             (initial (Some ''K''))) = [itemA, itemB] \<and>
   last (issued (run_v1 [Mount, Respond 0 (Reply 200 pageOne), Type ''ba'', Wait 100, Type [],
                   Respond 0 (Reply 200 pageOne), Respond 0 (Reply 200 pageOne), Wait 400]
             (initial (Some ''K'')))) = SearchRequest ''ba'' \<and>
   movies (run_v1 [Mount, Respond 0 (Reply 200 pageOne), Type ''ba'', Wait 100, Type [],
                   Respond 0 (Reply 200 pageOne), Respond 0 (Reply 200 pageOne), Wait 400,
                   Respond 0 (Reply 200 pageTwo)] (initial (Some ''K''))) = [] \<and>
   search (run_v1 [Mount, Respond 0 (Reply 200 pageOne), Type ''ba'', Wait 100, Type [],
                   Respond 0 (Reply 200 pageOne), Respond 0 (Reply 200 pageOne), Wait 400,
                   Respond 0 (Reply 200 pageTwo)] (initial (Some ''K''))) = [] \<and>
   \<not> gridShown_v1 (run_v1 [Mount, Respond 0 (Reply 200 pageOne), Type ''ba'', Wait 100,
                   Type [], Respond 0 (Reply 200 pageOne), Respond 0 (Reply 200 pageOne),
                   Wait 400, Respond 0 (Reply 200 pageTwo)] (initial (Some ''K'')))"
  by code_simp

text \<open>
  No component checks a response against the current query, or aborts a request: a
  suggestion request for \<^verbatim>\<open>ba\<close> that is in flight when the query is cleared is applied
  when its response arrives.
\<close>

lemma stale_response_after_clear:
  "search (run [Mount, Respond 0 (Reply 200 pageOne), Type ''ba'', Wait 300, Type [],
                Respond 0 (Reply 200 pageTwo)] (initial (Some ''K''))) = [] \<and>
   suggestions (run [Mount, Respond 0 (Reply 200 pageOne), Type ''ba'', Wait 300, Type [],
                Respond 0 (Reply 200 pageTwo)] (initial (Some ''K''))) = [itemB, itemC]"
  by code_simp

text \<open>
  Claim C2, at the failing input. In \<^verbatim>\<open>src/App.js\<close>, after the first page has loaded,
  the values \<^verbatim>\<open>b\<close>, \<^verbatim>\<open>ba\<close>, \<^verbatim>\<open>bat\<close> typed 100 ms apart give two suggestion requests,
  for \<^verbatim>\<open>ba\<close> and for \<^verbatim>\<open>bat\<close>, and no full-search request: the handle of the
  suggestion timer is overwritten by the handle of the search timer, so the next keystroke
  cannot cancel it, and the clean-up of the effect that depends on \<^verbatim>\<open>search\<close> cancels
  the search timer right after each keystroke.
\<close>

theorem typing_bat_requests:
  "issued (run [Mount, Respond 0 (Reply 200 pageOne), Type ''b'', Wait 100, Type ''ba'',
                Wait 100, Type ''bat'', Wait 1000] (initial (Some ''K''))) =
     [PageRequest (Some ''https://api.themoviedb.org/3/trending/movie/week?api_key=K&page=1'')
        1 True,
      SuggestionRequest ''ba'', SuggestionRequest ''bat'']"
  by code_simp

text \<open>
  The part_000 component, on the same input: one suggestion request and one full-search
  request, both for \<^verbatim>\<open>bat\<close>.
\<close>

lemma typing_bat_requests_v1:
  "issued (run_v1 [Mount, Respond 0 (Reply 200 pageOne), Type ''b'', Wait 100, Type ''ba'',
                   Wait 100, Type ''bat'', Wait 1000] (initial (Some ''K''))) =
     [PageRequest
        (Some ''https://api.themoviedb.org/3/trending/movie/week?api_key=K&page=1&language=en'')
        1 True,
      SuggestionRequest ''bat'', SearchRequest ''bat'']"
  by code_simp

text \<open>
  Claim C7, at the failing input. In \<^verbatim>\<open>src/App.js\<close>, with the suggestions for \<^verbatim>\<open>ba\<close>
  on display, the value \<^verbatim>\<open>b\<close> leaves the suggestions as they are: the handler has no
  branch for a trimmed length below 2.
\<close>

theorem short_query_keeps_suggestions:
  "suggestions (run [Mount, Respond 0 (Reply 200 pageOne), Type ''ba'', Wait 300,
                     Respond 0 (Reply 200 pageTwo), Type ''b''] (initial (Some ''K''))) =
     [itemB, itemC]"
  by code_simp

text \<open>
  In \<^verbatim>\<open>src/App.js\<close>, for every state and every value of trimmed length 1, the event
  leaves the suggestions and the search results as they are, and sends no request.
\<close>

lemma short_query_unchanged:
  assumes "length (trim v) = 1"
  shows "suggestions (step (Type v) st) = suggestions st \<and>
         searchResults (step (Type v) st) = searchResults st \<and>
         issued (step (Type v) st) = issued st"
proof -
  from assms have t: "trim v \<noteq> []" by auto
  then have v: "v \<noteq> []" by (auto simp: trim_Nil)
  have h: "handleSearchChange v st = clearTyping (st\<lparr>search := v\<rparr>)"
    using assms t by (simp add: handleSearchChange_def Let_def)
  obtain w where st': "step (Type v) st
      = (loadDataEffect st (handleSearchChange v st))\<lparr>scrollWatch := w\<rparr>"
    using rendered_watch [of st "handleSearchChange v st"] by (auto simp: step_def)
  show ?thesis
    using v by (simp add: st' h loadDataEffect_cases clearTyping_fields)
qed

text \<open>
  The part_000 component, for every state and every value of trimmed length 1: the
  suggestions and the search results are emptied, no request is sent and no timer is armed.
\<close>

lemma commit_v1_watch: "\<exists>w. commit_v1 st = st\<lparr>scrollWatch := w\<rparr>"
proof (cases "commit_v1 st = st")
  case True
  then have "commit_v1 st = st\<lparr>scrollWatch := scrollWatch st\<rparr>" by simp
  then show ?thesis ..
next
  case False
  then have "commit_v1 st = st\<lparr>scrollWatch := None\<rparr>"
    by (simp add: commit_v1_def split: option.splits if_splits)
  then show ?thesis ..
qed

lemma observerEffect_v1_watch:
  "\<exists>w'. observerEffect_v1 prev (st\<lparr>scrollWatch := w\<rparr>) = st\<lparr>scrollWatch := w'\<rparr>"
proof (cases "observerDeps_v1 prev = observerDeps_v1 (st\<lparr>scrollWatch := w\<rparr>)")
  case True
  then have "observerEffect_v1 prev (st\<lparr>scrollWatch := w\<rparr>) = st\<lparr>scrollWatch := w\<rparr>"
    by (simp add: observerEffect_v1_def)
  then show ?thesis ..
next
  case False
  show ?thesis
  proof (cases "loading st \<or> \<not> hasMore st \<or> trim (search st) \<noteq> [] \<or> showTVDetails st
      \<or> movies st = []")
    case True
    with False
    have "observerEffect_v1 prev (st\<lparr>scrollWatch := w\<rparr>) = st\<lparr>scrollWatch := None\<rparr>"
      by (simp add: observerEffect_v1_def observerBody_v1_def)
    then show ?thesis ..
  next
    case g: False
    with False have "observerEffect_v1 prev (st\<lparr>scrollWatch := w\<rparr>)
        = st\<lparr>scrollWatch := lastMovieRef_v1 (st\<lparr>scrollWatch := None\<rparr>)\<rparr>"
      by (simp add: observerEffect_v1_def observerBody_v1_def)
    then show ?thesis ..
  qed
qed

lemma loadDataEffect_v1_watch:
  "loadDataEffect_v1 prev (st\<lparr>scrollWatch := w\<rparr>)
     = (loadDataEffect_v1 prev st)\<lparr>scrollWatch := w\<rparr>"
  by (simp add: loadDataEffect_v1_def loadDataDeps_v1_def loadDataBody_v1_def
      fetchCurrentCategory_v1_def fetchTrending_v1_def fetchByCategory_v1_def send_def Let_def)

lemma rendered_v1_watch:
  "\<exists>w. rendered_v1 prev st = (loadDataEffect_v1 prev st)\<lparr>scrollWatch := w\<rparr>"
proof -
  obtain a where a: "commit_v1 st = st\<lparr>scrollWatch := a\<rparr>"
    using commit_v1_watch by blast
  obtain b where b: "observerEffect_v1 prev (st\<lparr>scrollWatch := a\<rparr>) = st\<lparr>scrollWatch := b\<rparr>"
    using observerEffect_v1_watch by blast
  let ?l = "loadDataEffect_v1 prev st"
  obtain c where c: "commit_v1 (?l\<lparr>scrollWatch := b\<rparr>) = ?l\<lparr>scrollWatch := c\<rparr>"
    using commit_v1_watch [of "?l\<lparr>scrollWatch := b\<rparr>"] by auto
  obtain d where d: "observerEffect_v1 (st\<lparr>scrollWatch := b\<rparr>) (?l\<lparr>scrollWatch := c\<rparr>)
      = ?l\<lparr>scrollWatch := d\<rparr>"
    using observerEffect_v1_watch by blast
  have "rendered_v1 prev st = ?l\<lparr>scrollWatch := d\<rparr>"
    by (simp add: rendered_v1_def Let_def a b loadDataEffect_v1_watch c d)
  then show ?thesis ..
qed

lemma short_query_v1:
  "length (trim v) = 1 \<Longrightarrow>
   (let st' = step_v1 (Type v) st
    in suggestions st' = [] \<and> searchResults st' = [] \<and> isSearching st' = False
       \<and> issued st' = issued st \<and> set (timers st') \<subseteq> set (timers st))"
proof -
  assume l: "length (trim v) = 1"
  then have t: "trim v \<noteq> []" by auto
  obtain w where st': "step_v1 (Type v) st
      = (loadDataEffect_v1 st (handleSearchChange_v1 v st))\<lparr>scrollWatch := w\<rparr>"
    using rendered_v1_watch [of st "handleSearchChange_v1 v st"] by (auto simp: step_v1_def)
  show ?thesis
    using l t
    by (auto simp add: st' handleSearchChange_v1_def clearTyping_v1_def clearTimeout_def
        loadDataEffect_v1_def loadDataBody_v1_def Let_def split: option.splits)
qed

lemma short_query_v1_example:
  "suggestions (run_v1 [Mount, Respond 0 (Reply 200 pageOne), Type ''ba'', Wait 300,
                        Respond 0 (Reply 200 pageTwo), Type ''b''] (initial (Some ''K''))) = []"
  by code_simp

subsection \<open>Visibility watches\<close>

lemma imageCallback_idle: "\<not> observing im \<or> \<not> b \<Longrightarrow> imageCallback b im = im"
  by (auto simp: imageCallback_def)

lemma imageEffect_same: "imageEffect im im = im"
  by (simp add: imageEffect_def)

lemma imageStep_idle: "\<not> observing im \<or> \<not> b \<Longrightarrow> imageStep b im = im"
  by (simp add: imageStep_def imageCallback_idle imageEffect_same)

lemma imageStep_fires:
  "observing im \<Longrightarrow>
   imageStep True im =
     im\<lparr>isVisible := True, visibleCalls := Suc (visibleCalls im), observing := False\<rparr>"
  by (simp add: imageStep_def imageCallback_def imageEffect_def imageBody_def)

lemma image_disconnected: "\<not> observing im \<Longrightarrow> fold imageStep bs im = im"
  by (induction bs) (simp_all add: imageStep_idle)

lemma image_single_shot:
  "observing im \<Longrightarrow>
   visibleCalls (fold imageStep bs im) = visibleCalls im + (if True \<in> set bs then 1 else 0)
   \<and> observing (fold imageStep bs im) = (True \<notin> set bs)
   \<and> (True \<in> set bs \<longrightarrow> isVisible (fold imageStep bs im))"
proof (induction bs)
  case Nil
  then show ?case by simp
next
  case (Cons b bs)
  show ?case
  proof (cases b)
    case True
    with Cons.prems show ?thesis
      by (simp add: imageStep_fires image_disconnected)
  next
    case False
    with Cons show ?thesis by (simp add: imageStep_idle)
  qed
qed

text \<open>
  Claim C8, at the failing input. In the first component of \<^verbatim>\<open>unnamed/part_000\<close>,
  with the first page on display, the observer watches the last cell of the grid. An
  intersecting entry calls \<^verbatim>\<open>handleLoadMore\<close>, which sends the request for page 2 and
  leaves \<^verbatim>\<open>loading\<close> unset: the grid stays as it is, no dependency of the effect
  changes, and the observer still watches the same cell. A second intersecting entry for
  the same watch calls \<^verbatim>\<open>handleLoadMore\<close> again: the request for page 2 is sent twice.
\<close>

theorem scroll_watch_v1_fires_again:
  "scrollWatch (run_v1 [Mount, Respond 0 (Reply 200 pageOne)] (initial (Some ''K'')))
     = Some ''2-B-1'' \<and>
   scrollWatch (run_v1 [Mount, Respond 0 (Reply 200 pageOne), Intersect True]
                  (initial (Some ''K''))) = Some ''2-B-1'' \<and>
   pending (run_v1 [Mount, Respond 0 (Reply 200 pageOne), Intersect True, Intersect True]
              (initial (Some ''K''))) =
     [PageRequest
        (Some ''https://api.themoviedb.org/3/trending/movie/week?api_key=K&page=2&language=en'')
        2 False,
      PageRequest
        (Some ''https://api.themoviedb.org/3/trending/movie/week?api_key=K&page=2&language=en'')
        2 False]"
  by code_simp

text \<open>
  The watch of \<^verbatim>\<open>src/App.js\<close>. After every render (whatever the update that caused
  it) the cell that the observer watches, when there is one, is in the grid; so nothing is
  loading then.
\<close>

lemma cellKeys_watch: "cellKeys (st\<lparr>scrollWatch := w\<rparr>) = cellKeys st"
  by (simp add: cellKeys_def gridShown_def displayMovies_def)

lemma commit_attached: "attached (commit st)"
  by (simp add: attached_def commit_def cellKeys_watch split: option.splits)

lemma observerEffect_attached: "attached st \<Longrightarrow> attached (observerEffect prev st)"
  by (simp add: attached_def observerEffect_def observerBody_def lastMovieRef_def
      cellKeys_watch split: option.splits)

lemma rendered_attached: "attached (rendered prev st)"
  by (simp add: rendered_def Let_def observerEffect_attached commit_attached)

lemma mount_attached: "attached (mount st)"
  by (simp add: mount_def Let_def observerEffect_attached commit_attached)

lemma step_attached: "attached (step e st)"
  by (simp add: step_def rendered_attached mount_attached)

lemma attached_loading: "attached st \<Longrightarrow> scrollWatch st \<noteq> None \<Longrightarrow> \<not> loading st"
  by (auto simp: attached_def cellKeys_def gridShown_def split: option.splits if_splits)

lemma commit_idle: "attached st \<Longrightarrow> commit st = st"
  by (simp add: attached_def commit_def split: option.splits)

lemma rendered_same: "attached st \<Longrightarrow> rendered st st = st"
  by (simp add: rendered_def commit_idle observerEffect_def loadDataEffect_def)

text \<open>
  An entry that does not intersect, or an entry while the observer watches nothing, changes
  nothing. An intersecting entry for the watched cell calls \<^verbatim>\<open>handleLoadMore\<close>, which
  sends one request and sets \<^verbatim>\<open>loading\<close>; the render that follows takes the grid from
  the document and the clean-up of the effect disconnects the observer.
\<close>

lemma scroll_idle:
  "attached st \<Longrightarrow> scrollWatch st = None \<or> \<not> b \<Longrightarrow> step (Intersect b) st = st"
  by (auto simp: step_def scrollCallback_def rendered_same)

lemma scroll_fires:
  assumes "attached st" and "scrollWatch st \<noteq> None"
  shows "step (Intersect True) st = (handleLoadMore st)\<lparr>scrollWatch := None\<rparr>"
proof -
  let ?h = "handleLoadMore st"
  let ?n = "?h\<lparr>scrollWatch := None\<rparr>"
  from assms have nl: "\<not> loading st" by (rule attached_loading)
  have l: "loading ?h" by (simp add: handleLoadMore_sends)
  have k: "cellKeys ?h = []" using l by (simp add: cellKeys_def gridShown_def)
  have sw: "scrollWatch ?h \<noteq> None" using assms(2) by (simp add: handleLoadMore_sends)
  have c: "commit ?h = ?n"
    using sw by (auto simp: commit_def k split: option.splits)
  have d: "observerDeps st \<noteq> observerDeps ?n"
    using nl by (simp add: observerDeps_def handleLoadMore_sends)
  have o: "observerEffect st ?n = ?n"
    using d by (simp add: observerEffect_def observerBody_def handleLoadMore_sends)
  have ld: "loadDataEffect st ?n = ?n"
    by (simp add: loadDataEffect_def loadDataDeps_def handleLoadMore_sends)
  have c2: "commit ?n = ?n" by (simp add: commit_def)
  have o2: "observerEffect ?n ?n = ?n" by (simp add: observerEffect_def)
  have "step (Intersect True) st = rendered st ?h"
    using assms by (simp add: step_def scrollCallback_def)
  also have "\<dots> = ?n"
    unfolding rendered_def Let_def c o ld c2 by (rule o2)
  finally show ?thesis .
qed

lemma scroll_disconnected:
  "scrollWatch st = None \<Longrightarrow> fold (\<lambda>b. step (Intersect b)) bs st = st"
  by (induction bs) (simp_all add: scroll_idle attached_def)

lemma scroll_single_shot:
  "attached st \<Longrightarrow> scrollWatch st \<noteq> None \<Longrightarrow>
   length (issued (fold (\<lambda>b. step (Intersect b)) bs st))
     = length (issued st) + (if True \<in> set bs then 1 else 0)
   \<and> (scrollWatch (fold (\<lambda>b. step (Intersect b)) bs st) = None) = (True \<in> set bs)"
proof (induction bs)
  case Nil
  then show ?case by simp
next
  case (Cons b bs)
  show ?case
  proof (cases b)
    case True
    note u = scroll_fires [OF Cons.prems]
    have "scrollWatch (step (Intersect True) st) = None" by (simp add: u)
    then have "fold (\<lambda>b. step (Intersect b)) bs (step (Intersect True) st)
        = step (Intersect True) st"
      by (rule scroll_disconnected)
    with True show ?thesis by (simp add: u handleLoadMore_sends)
  next
    case False
    with Cons show ?thesis by (simp add: scroll_idle)
  qed
qed

text \<open>
  So in \<^verbatim>\<open>src/App.js\<close> one watch calls \<^verbatim>\<open>handleLoadMore\<close> once, at the first
  intersecting entry, and never again: for the state after any render, or after the first
  one, in which the observer watches a cell, and every sequence \<open>bs\<close> of entries for
  that watch, one request is sent if an entry of \<open>bs\<close> intersects and none otherwise,
  and the observer is disconnected from the first intersecting entry on. The callback
  has no \<^verbatim>\<open>disconnect\<close> of its own: it is the clean-up of the effect that disconnects,
  in the render that follows the call.
\<close>

lemma scroll_watch_single_shot:
  assumes "st = rendered prev hs \<or> st = mount s0" and "scrollWatch st \<noteq> None"
  shows "length (issued (run (map Intersect bs) st))
           = length (issued st) + (if True \<in> set bs then 1 else 0)
         \<and> (scrollWatch (run (map Intersect bs) st) = None) = (True \<in> set bs)"
proof -
  from assms(1) have a: "attached st" by (auto simp: rendered_attached mount_attached)
  have r: "run (map Intersect bs) st = fold (\<lambda>b. step (Intersect b)) bs st"
    by (simp add: run_def fold_map comp_def)
  from scroll_single_shot [OF a assms(2), of bs] show ?thesis unfolding r .
qed

lemma scroll_watch_example:
  "scrollWatch (run [Mount, Respond 0 (Reply 200 pageOne)] (initial (Some ''K'')))
     = Some ''2-B'' \<and>
   scrollWatch (run [Mount, Respond 0 (Reply 200 pageOne), Intersect True]
                  (initial (Some ''K''))) = None \<and>
   pending (run [Mount, Respond 0 (Reply 200 pageOne), Intersect False, Intersect True,
                 Intersect True] (initial (Some ''K''))) =
     [PageRequest (Some ''https://api.themoviedb.org/3/trending/movie/week?api_key=K&page=2'')
        2 True]"
  by code_simp

text \<open>
  The observer follows its node. A response that replaces the list while no dependency of
  the effect changes (here the response to the second of two requests for page 1) leaves
  the observer on the cell it watched when a cell of that key is still in the grid, though
  that cell is no longer the last one; when no such cell is left, the node is removed and
  the observer watches nothing. In the part_000 component a load-more that fails sets the
  error message: the grid leaves the document and the observer watches nothing.
\<close>

lemma scroll_watch_follows_node:
  "scrollWatch (run [Mount, Type [], Respond 0 (Reply 200 pageOne)] (initial (Some ''K'')))
     = Some ''2-B'' \<and>
   scrollWatch (run [Mount, Type [], Respond 0 (Reply 200 pageOne),
                     Respond 0 (Reply 200 pageTwo)] (initial (Some ''K''))) = Some ''2-B'' \<and>
   lastMovieRef (run [Mount, Type [], Respond 0 (Reply 200 pageOne),
                      Respond 0 (Reply 200 pageTwo)] (initial (Some ''K''))) = Some ''3-C'' \<and>
   scrollWatch (run [Mount, Type [], Respond 0 (Reply 200 pageOne),
                     Respond 0 (Reply 200 \<lparr>results = Some [itemC], total_pages = Some 5,
                                            total_results = Some 100\<rparr>)]
                  (initial (Some ''K''))) = None \<and>
   scrollWatch (run_v1 [Mount, Respond 0 (Reply 200 pageOne), LoadMore,
                        Respond 0 (Rejected ''Failed to fetch'')] (initial (Some ''K'')))
     = None"
  by code_simp

text \<open>
  The watch of the lazy image: its callback calls \<^verbatim>\<open>setIsVisible(true)\<close> and disconnects
  the observer at the first intersecting entry; for every sequence \<open>bs\<close> of entries
  for one watch there is one call if an entry intersects and none otherwise.
\<close>

lemma image_watch_single_shot:
  "visibleCalls (fold imageStep bs (imageBody (imageInitial True False)))
     = (if True \<in> set bs then 1 else 0)
   \<and> observing (fold imageStep bs (imageBody (imageInitial True False))) = (True \<notin> set bs)"
proof -
  have o: "observing (imageBody (imageInitial True False))"
    by (simp add: imageBody_def imageInitial_def)
  have v: "visibleCalls (imageBody (imageInitial True False)) = 0"
    by (simp add: imageBody_def imageInitial_def)
  from image_single_shot [OF o, of bs] v show ?thesis by simp
qed

end
